theory Spec2Isabelle
  imports Complex_Main "HOL-Library.Char_ord" "HOL-Library.List_Lexorder"
begin

section \<open>Data model of the inventory engine\<close>

text \<open>
  The engine of \<^verbatim>\<open>src/logic/inventoryEngine.ts\<close> is a class whose methods mutate its
  fields. Here the fields are one record, \<open>Engine\<close>, and every method is a function from
  the state to the new state (and the returned value, when callers use it).

  Time stamps are ISO strings that the code compares through \<^verbatim>\<open>toMs\<close>
  (\<^verbatim>\<open>new Date(value).getTime()\<close>); they are modelled by the millisecond count, an
  \<open>int\<close>. Quantities are JavaScript numbers used as integers: \<open>int\<close>.
  Optional properties are \<open>option\<close> values.
\<close>

type_synonym timestamp = int

definition toMs :: "timestamp \<Rightarrow> int" where
  "toMs value = value"

datatype InventorySource = RFID | NON_RFID

datatype TaskStatus = CREATED | ASSIGNED | IN_PROGRESS | CONFIRMED | REJECTED

datatype OrderStatus = IN_TRANSIT | ORDER_CONFIRMED | ORDER_CANCELLED

datatype BasketStatus = IN_CART | SOLD | REMOVED

datatype PickStatus = PICK_IN_PROGRESS | PICK_COMPLETED

datatype SalesEventType = SALE | RETURN

datatype StaffRole = ASSOCIATE | SUPERVISOR

datatype AuditAction =
  AUDIT_CREATED | AUDIT_ASSIGNED | AUDIT_STARTED | AUDIT_CONFIRMED | AUDIT_CLOSED | AUDIT_CANCELLED

text \<open>
  The interfaces of \<^verbatim>\<open>src/domain/models.ts\<close>. Field names carry a prefix, since the
  fields of all records share one name space. Fields that no method of the engine reads
  or writes are left out: the name, coordinates, activity flag and creation time of an
  antenna, \<^verbatim>\<open>skuName\<close> of a mapping and \<^verbatim>\<open>shiftLabel\<close> of a staff member. An absent
  \<^verbatim>\<open>sourceCandidates\<close> of a task is the empty list, as the engine reads it
  (\<^verbatim>\<open>task.sourceCandidates ?? []\<close>).
\<close>

record SourceRef =
  sr_sourceZoneId :: string
  sr_sortOrder :: int

record Zone =
  z_id :: string
  z_name :: string
  z_color :: string
  z_mapPolygon :: "(real \<times> real) list"
  z_antennaIds :: "string list"
  z_ruleIds :: "string list"
  z_isSalesLocation :: bool
  z_replenishmentSources :: "SourceRef list"
  z_isActive :: bool
  z_createdAt :: timestamp

record Antenna =
  a_id :: string
  a_zoneId :: string

record EPCSkuMapping =
  m_id :: string
  m_epc :: string
  m_skuId :: string
  m_inventorySource :: InventorySource
  m_activeFrom :: timestamp
  m_activeTo :: "timestamp option"

record ReplenishmentRule =
  r_id :: string
  r_zoneId :: string
  r_skuId :: string
  r_source :: InventorySource
  r_inboundSourceLocationId :: "string option"
  r_minQty :: int
  r_maxQty :: int
  r_priority :: int
  r_isActive :: bool
  r_updatedAt :: timestamp

record SourceCandidate =
  c_sourceZoneId :: string
  c_sortOrder :: int
  c_availableQty :: int

record ReplenishmentTask =
  t_id :: string
  t_ruleId :: string
  t_zoneId :: string
  t_skuId :: string
  t_sourceCandidates :: "SourceCandidate list"
  t_sourceZoneId :: "string option"
  t_status :: TaskStatus
  t_triggerQty :: int
  t_deficitQty :: int
  t_targetQty :: int
  t_createdAt :: timestamp
  t_updatedAt :: timestamp
  t_assignedStaffId :: "string option"
  t_assignedAt :: "timestamp option"
  t_confirmedQty :: "int option"
  t_confirmedBy :: "string option"
  t_closeReason :: "string option"
  t_closedAt :: "timestamp option"

record ReceivingOrder =
  o_id :: string
  o_sourceLocationId :: string
  o_destinationZoneId :: string
  o_skuId :: string
  o_source :: InventorySource
  o_requestedQty :: int
  o_confirmedQty :: int
  o_status :: OrderStatus
  o_createdAt :: timestamp
  o_updatedAt :: timestamp
  o_note :: "string option"
  o_assignedStaffId :: "string option"
  o_assignedAt :: "timestamp option"
  o_confirmedAt :: "timestamp option"
  o_confirmedBy :: "string option"

record RFIDReadEvent =
  e_id :: string
  e_epc :: string
  e_antennaId :: string
  e_zoneId :: string
  e_timestamp :: timestamp
  e_rssi :: "real option"
  e_ingestedAt :: timestamp

record SalesEvent =
  se_id :: string
  se_skuId :: string
  se_zoneId :: string
  se_eventType :: SalesEventType
  se_qty :: int
  se_timestamp :: timestamp
  se_posTxnId :: "string option"
  se_ingestedAt :: timestamp

record StaffMember =
  st_id :: string
  st_name :: string
  st_role :: StaffRole
  st_activeShift :: bool
  st_scopeAllZones :: bool
  st_zoneScopeZoneIds :: "string list"

text \<open>
  The \<^verbatim>\<open>id\<close> of an audit entry is built from the host clock and a random number
  (\<^verbatim>\<open>audit-${Date.now()}-${Math.random()...}\<close>); nothing reads it, and it is not part of
  the record.
\<close>

record TaskAuditEntry =
  au_taskId :: string
  au_action :: AuditAction
  au_actorId :: "string option"
  au_details :: string
  au_timestamp :: timestamp

record InventorySnapshotByZone =
  s_id :: string
  s_zoneId :: string
  s_skuId :: string
  s_qty :: int
  s_source :: InventorySource
  s_confidence :: "real option"
  s_lastCalculatedAt :: timestamp
  s_version :: int

record EPCPresence =
  p_epc :: string
  p_skuId :: string
  p_zoneId :: string
  p_antennaId :: string
  p_lastSeenAt :: timestamp
  p_lastRssi :: "real option"


record Customer =
  cu_id :: string
  cu_name :: string

record CustomerBasketItem =
  b_id :: string
  b_customerId :: string
  b_zoneId :: string
  b_skuId :: string
  b_qty :: int
  b_pickedConfirmedQty :: int
  b_status :: BasketStatus
  b_createdAt :: timestamp

record PendingRFIDPick =
  pk_basketItemId :: string
  pk_zoneId :: string
  pk_skuId :: string
  pk_qtyRemaining :: int
  pk_consumedEpcs :: "string list"
  pk_status :: PickStatus

record ConfirmationMovement =
  cm_zoneId :: string
  cm_skuId :: string
  cm_qty :: int
  cm_timestamp :: timestamp
  cm_taskId :: string

record ConfirmReceivingPayload =
  crp_confirmedAt :: timestamp
  crp_confirmedBy :: string


text \<open>
  The fields of the class. A JavaScript \<^verbatim>\<open>Map\<close> that the code iterates
  (\<^verbatim>\<open>epcPresence\<close>, \<^verbatim>\<open>customers\<close>) is an association list in insertion order; a
  \<^verbatim>\<open>Map\<close> that is only looked up (\<^verbatim>\<open>skuSourceById\<close>, \<^verbatim>\<open>nonRfidBaselines\<close>) is a
  partial function.
\<close>

record Engine =
  zones :: "Zone list"
  antennas :: "Antenna list"
  mapping :: "EPCSkuMapping list"
  rules :: "ReplenishmentRule list"
  skuSourceById :: "string \<rightharpoonup> InventorySource"
  nonRfidBaselines :: "string \<rightharpoonup> InventorySnapshotByZone"
  snapshots :: "InventorySnapshotByZone list"
  rfidEvents :: "RFIDReadEvent list"
  salesEvents :: "SalesEvent list"
  tasks :: "ReplenishmentTask list"
  epcPresence :: "(string \<times> EPCPresence) list"
  customers :: "(string \<times> Customer) list"
  customerBasketItems :: "CustomerBasketItem list"
  pendingRFIDPicks :: "PendingRFIDPick list"
  replenishmentConfirmations :: "ConfirmationMovement list"
  receivingOrders :: "ReceivingOrder list"
  staff :: "StaffMember list"
  taskAudit :: "TaskAuditEntry list"
  nowCursor :: timestamp
  generatedEpcSeq :: nat
  personalizableSkuIds :: "string list"


section \<open>JavaScript library operations\<close>

text \<open>
  \<^verbatim>\<open>if (x)\<close> and \<^verbatim>\<open>!x\<close> on an optional string: \<^verbatim>\<open>undefined\<close> and the empty string
  are both falsy.
\<close>

definition truthy :: "string option \<Rightarrow> bool" where
  "truthy v = (case v of None \<Rightarrow> False | Some x \<Rightarrow> x \<noteq> [])"

text \<open>\<^verbatim>\<open>Array.prototype.findIndex\<close>: position of the first element that satisfies \<open>P\<close>.\<close>

fun findIndex :: "('a \<Rightarrow> bool) \<Rightarrow> 'a list \<Rightarrow> nat option" where
  "findIndex P [] = None"
| "findIndex P (x # xs) = (if P x then Some 0 else map_option Suc (findIndex P xs))"

text \<open>\<^verbatim>\<open>new Set(xs)\<close> iterates in insertion order: the first occurrence of each element.\<close>

definition newSet :: "'a list \<Rightarrow> 'a list" where
  "newSet xs = rev (remdups (rev xs))"

text \<open>
  \<^verbatim>\<open>xs.slice(0, n)\<close>: a negative \<open>n\<close> counts from the end of the array.
\<close>

definition slice0 :: "'a list \<Rightarrow> int \<Rightarrow> 'a list" where
  "slice0 xs n = (if 0 \<le> n then take (nat n) xs else take (nat (int (length xs) + n)) xs)"

definition startsWith :: "string \<Rightarrow> string \<Rightarrow> bool" where
  "startsWith s p = (take (length p) s = p)"


definition lowerChar :: "char \<Rightarrow> char" where
  "lowerChar c = (let n = (of_char c :: nat) in if 65 \<le> n \<and> n \<le> 90 then char_of (n + 32) else c)"


definition toLowerCase :: "string \<Rightarrow> string" where
  "toLowerCase s = map lowerChar s"


text \<open>Numbers inside template strings: decimal digits, with a sign for negative numbers.\<close>

definition digitChar :: "int \<Rightarrow> char" where
  "digitChar d = char_of (48 + d)"

function decimalDigits :: "int \<Rightarrow> string" where
  "decimalDigits i = (if i < 10 then [digitChar i] else decimalDigits (i div 10) @ [digitChar (i mod 10)])"
  by pat_completeness auto
termination
  by (relation "measure nat") auto

declare decimalDigits.simps [simp del]

definition stringOfNat :: "nat \<Rightarrow> string" where
  "stringOfNat n = decimalDigits (int n)"

definition stringOfInt :: "int \<Rightarrow> string" where
  "stringOfInt i = (if i < 0 then CHR ''-'' # decimalDigits (- i) else decimalDigits i)"

definition padStart :: "string \<Rightarrow> nat \<Rightarrow> char \<Rightarrow> string" where
  "padStart s n c = replicate (n - length s) c @ s"

definition sourceName :: "InventorySource \<Rightarrow> string" where
  "sourceName src = (case src of RFID \<Rightarrow> ''RFID'' | NON_RFID \<Rightarrow> ''NON_RFID'')"

text \<open>A \<^verbatim>\<open>Map\<close> in insertion order: \<^verbatim>\<open>set\<close> on a present key keeps its position.\<close>

fun mapSet :: "'k \<Rightarrow> 'v \<Rightarrow> ('k \<times> 'v) list \<Rightarrow> ('k \<times> 'v) list" where
  "mapSet k v [] = [(k, v)]"
| "mapSet k v ((k', v') # kvs) = (if k' = k then (k, v) # kvs else (k', v') # mapSet k v kvs)"

definition mapDelete :: "'k \<Rightarrow> ('k \<times> 'v) list \<Rightarrow> ('k \<times> 'v) list" where
  "mapDelete k kvs = filter (\<lambda>kv. fst kv \<noteq> k) kvs"

definition mapGet :: "('k \<times> 'v) list \<Rightarrow> 'k \<Rightarrow> 'v option" where
  "mapGet kvs k = map_of kvs k"

definition mapValues :: "('k \<times> 'v) list \<Rightarrow> 'v list" where
  "mapValues kvs = map snd kvs"

text \<open>Removing the element at one position (\<^verbatim>\<open>filter((s) => s !== existing)\<close>).\<close>

definition removeAt :: "nat \<Rightarrow> 'a list \<Rightarrow> 'a list" where
  "removeAt i xs = take i xs @ drop (Suc i) xs"

section \<open>Constants\<close>

definition dedupWindowSec :: int where
  "dedupWindowSec = 15"

definition rfidPresenceTtlSec :: int where
  "rfidPresenceTtlSec = 300"

definition CASHIER_STORAGE_ZONE_ID :: string where
  "CASHIER_STORAGE_ZONE_ID = ''zone-cashier-storage''"


definition taskIsOpen :: "TaskStatus \<Rightarrow> bool" where
  "taskIsOpen status = (status = CREATED \<or> status = ASSIGNED \<or> status = IN_PROGRESS)"

section \<open>Snapshot store and NON_RFID ledger\<close>

definition snapshotMatches :: "string \<Rightarrow> string \<Rightarrow> InventorySource \<Rightarrow> InventorySnapshotByZone \<Rightarrow> bool" where
  "snapshotMatches zoneId skuId source x =
     (s_zoneId x = zoneId \<and> s_skuId x = skuId \<and> s_source x = source)"

text \<open>
  \<^verbatim>\<open>getCurrentInventoryQty\<close>: the matching snapshot with the latest \<^verbatim>\<open>lastCalculatedAt\<close>
  (the sort is stable: the first of several equally recent ones), or 0.
\<close>

definition getCurrentInventoryQty :: "Engine \<Rightarrow> string \<Rightarrow> string \<Rightarrow> InventorySource \<Rightarrow> int" where
  "getCurrentInventoryQty s zoneId skuId source =
     (case sort_key (\<lambda>x. - toMs (s_lastCalculatedAt x))
             (filter (snapshotMatches zoneId skuId source) (snapshots s)) of
        [] \<Rightarrow> 0
      | x # _ \<Rightarrow> s_qty x)"

definition upsertSnapshot ::
  "string \<Rightarrow> string \<Rightarrow> int \<Rightarrow> InventorySource \<Rightarrow> real option \<Rightarrow> Engine \<Rightarrow> Engine" where
  "upsertSnapshot zoneId skuId qty source confidence s =
     (let existing = findIndex (snapshotMatches zoneId skuId source) (snapshots s) in
      if zoneId = CASHIER_STORAGE_ZONE_ID \<and> qty \<le> 0 then
        (case existing of
           Some i \<Rightarrow> s\<lparr>snapshots := removeAt i (snapshots s)\<rparr>
         | None \<Rightarrow> s)
      else
        (case existing of
           None \<Rightarrow>
             s\<lparr>snapshots := snapshots s @
                [\<lparr>s_id = ''snap-'' @ zoneId @ ''-'' @ skuId @ ''-'' @ sourceName source,
                  s_zoneId = zoneId, s_skuId = skuId, s_qty = qty, s_source = source,
                  s_confidence = confidence, s_lastCalculatedAt = nowCursor s, s_version = 1\<rparr>]\<rparr>
         | Some i \<Rightarrow>
             s\<lparr>snapshots := (snapshots s)[i :=
                (snapshots s ! i)\<lparr>s_qty := qty, s_lastCalculatedAt := nowCursor s,
                   s_version := s_version (snapshots s ! i) + 1,
                   s_confidence := (case confidence of None \<Rightarrow> s_confidence (snapshots s ! i)
                                    | Some c \<Rightarrow> Some c)\<rparr>]\<rparr>))"

definition getBaselineKey :: "string \<Rightarrow> string \<Rightarrow> string" where
  "getBaselineKey zoneId skuId = zoneId @ ''::'' @ skuId"

definition getBaselineSnapshot :: "Engine \<Rightarrow> string \<Rightarrow> string \<Rightarrow> InventorySnapshotByZone" where
  "getBaselineSnapshot s zoneId skuId =
     (case nonRfidBaselines s (getBaselineKey zoneId skuId) of
        Some exact \<Rightarrow> exact
      | None \<Rightarrow>
          \<lparr>s_id = ''baseline-'' @ zoneId @ ''-'' @ skuId, s_zoneId = zoneId, s_skuId = skuId,
            s_qty = 0, s_source = NON_RFID, s_confidence = None,
            s_lastCalculatedAt = 1770714000000, s_version = 1\<rparr>)"

text \<open>
  \<^verbatim>\<open>calculateNonRFIDInventory\<close>: three \<^verbatim>\<open>filter(...).reduce((acc, e) => acc + e.qty, 0)\<close>
  passes over the sales log and the confirmation log, clamped at 0.
\<close>

definition calculateNonRFIDInventory :: "Engine \<Rightarrow> string \<Rightarrow> string \<Rightarrow> int" where
  "calculateNonRFIDInventory s skuId zoneId =
     (let baseline = getBaselineSnapshot s zoneId skuId;
          baselineMs = toMs (s_lastCalculatedAt baseline);
          sold = foldl (\<lambda>acc e. acc + se_qty e) 0
                   (filter (\<lambda>e. se_zoneId e = zoneId \<and> se_skuId e = skuId \<and> se_eventType e = SALE
                                \<and> toMs (se_timestamp e) \<ge> baselineMs) (salesEvents s));
          returns = foldl (\<lambda>acc e. acc + se_qty e) 0
                   (filter (\<lambda>e. se_zoneId e = zoneId \<and> se_skuId e = skuId \<and> se_eventType e = RETURN
                                \<and> toMs (se_timestamp e) \<ge> baselineMs) (salesEvents s));
          confirmedReplenishment = foldl (\<lambda>acc c. acc + cm_qty c) 0
                   (filter (\<lambda>c. cm_zoneId c = zoneId \<and> cm_skuId c = skuId
                                \<and> toMs (cm_timestamp c) \<ge> baselineMs) (replenishmentConfirmations s))
      in max 0 (s_qty baseline - sold + returns + confirmedReplenishment))"

section \<open>RFID reads: dedup window, EPC lookup, presence\<close>

text \<open>
  \<^verbatim>\<open>deduplicateReads\<close>: the last stored read of the same EPC at the same antenna
  (\<^verbatim>\<open>[...rfidEvents].reverse().find(...)\<close>) lies inside the window.
\<close>

definition deduplicateReads :: "Engine \<Rightarrow> string \<Rightarrow> string \<Rightarrow> int \<Rightarrow> timestamp \<Rightarrow> bool" where
  "deduplicateReads s epc antennaId timeWindowSec eventTimestamp =
     (let eventMs = toMs eventTimestamp;
          lowerBound = eventMs - timeWindowSec * 1000
      in case find (\<lambda>e. e_epc e = epc \<and> e_antennaId e = antennaId) (rev (rfidEvents s)) of
           None \<Rightarrow> False
         | Some lastRead \<Rightarrow> toMs (e_timestamp lastRead) \<ge> lowerBound)"

definition lookupSkuByEPC :: "Engine \<Rightarrow> string \<Rightarrow> timestamp \<Rightarrow> EPCSkuMapping option" where
  "lookupSkuByEPC s epc atTs =
     (let atMs = toMs atTs in
      find (\<lambda>m. m_epc m = epc \<and> toMs (m_activeFrom m) \<le> atMs \<and>
                 (case m_activeTo m of None \<Rightarrow> True | Some t \<Rightarrow> toMs t \<ge> atMs))
           (mapping s))"

text \<open>
  \<^verbatim>\<open>getPresentEPCs\<close>: EPCs of the SKU present in the zone within the TTL, oldest seen
  first (a stable sort of the presence map's iteration order).
\<close>

definition getPresentEPCs :: "Engine \<Rightarrow> string \<Rightarrow> string \<Rightarrow> string list" where
  "getPresentEPCs s zoneId skuId =
     (let nowMs = toMs (nowCursor s);
          ttlMs = rfidPresenceTtlSec * 1000;
          candidates = filter (\<lambda>p. p_zoneId p = zoneId \<and> p_skuId p = skuId \<and>
                                     \<not> toMs (p_lastSeenAt p) < nowMs - ttlMs)
                         (mapValues (epcPresence s))
      in map p_epc (sort_key (\<lambda>p. toMs (p_lastSeenAt p)) candidates))"


section \<open>Audit trail and staff auto-assignment\<close>

definition pushTaskAudit :: "string \<Rightarrow> AuditAction \<Rightarrow> string option \<Rightarrow> string \<Rightarrow> Engine \<Rightarrow> Engine" where
  "pushTaskAudit taskId action actorId details s =
     s\<lparr>taskAudit := \<lparr>au_taskId = taskId, au_action = action, au_actorId = actorId,
                      au_details = details, au_timestamp = nowCursor s\<rparr> # taskAudit s\<rparr>"

definition getAssignableActiveStaff :: "Engine \<Rightarrow> StaffMember list" where
  "getAssignableActiveStaff s =
     (let activeAssociates = filter (\<lambda>m. st_activeShift m \<and> st_role m = ASSOCIATE) (staff s) in
      if length activeAssociates > 0 then activeAssociates
      else filter st_activeShift (staff s))"

definition staffInScope :: "string \<Rightarrow> StaffMember \<Rightarrow> bool" where
  "staffInScope zoneId m = (st_scopeAllZones m \<or> zoneId \<in> set (st_zoneScopeZoneIds m))"


text \<open>\<^verbatim>\<open>loadByStaff.get(id) ?? 0\<close>\<close>

definition loadOf :: "(string \<rightharpoonup> int) \<Rightarrow> string \<Rightarrow> int" where
  "loadOf load k = (case load k of None \<Rightarrow> 0 | Some n \<Rightarrow> n)"

definition countAssigned :: "bool \<Rightarrow> string option \<Rightarrow> (string \<rightharpoonup> int) \<Rightarrow> (string \<rightharpoonup> int)" where
  "countAssigned isOpen assignedStaffId load =
     (if \<not> isOpen \<or> \<not> truthy assignedStaffId then load
      else case assignedStaffId of
             None \<Rightarrow> load
           | Some k \<Rightarrow> if load k = None then load else load(k \<mapsto> loadOf load k + 1))"

text \<open>
  The load table both auto-assigners build first: 0 for every available member, plus one
  for each open task and each order in transit already assigned to that member.
\<close>

definition staffLoad :: "Engine \<Rightarrow> StaffMember list \<Rightarrow> (string \<rightharpoonup> int)" where
  "staffLoad s availableStaff =
     (let l0 = fold (\<lambda>m l. l(st_id m \<mapsto> 0)) availableStaff Map.empty;
          l1 = fold (\<lambda>t l. countAssigned (taskIsOpen (t_status t)) (t_assignedStaffId t) l) (tasks s) l0
      in fold (\<lambda>ord l. countAssigned (o_status ord = IN_TRANSIT) (o_assignedStaffId ord) l)
           (receivingOrders s) l1)"

text \<open>The callback of \<^verbatim>\<open>assignPool.reduce\<close>: least load, ties to the smaller id.\<close>

definition chooseStaff :: "(string \<rightharpoonup> int) \<Rightarrow> StaffMember \<Rightarrow> StaffMember \<Rightarrow> StaffMember" where
  "chooseStaff load selected candidate =
     (let selectedLoad = loadOf load (st_id selected);
          candidateLoad = loadOf load (st_id candidate)
      in if candidateLoad = selectedLoad then
           (if st_id candidate < st_id selected then candidate else selected)
         else if candidateLoad < selectedLoad then candidate else selected)"

text \<open>
  One round of the loop over the pending tasks. \<open>i\<close> is the position of the task object
  in \<^verbatim>\<open>this.tasks\<close> (the array is only ever appended to, so a position identifies an
  object). The pool is never empty when the loop runs; \<^verbatim>\<open>reduce\<close> starts from its
  first member.
\<close>

definition assignTaskStep ::
  "timestamp \<Rightarrow> StaffMember list \<Rightarrow> nat \<Rightarrow> (string \<rightharpoonup> int) \<times> Engine \<Rightarrow> (string \<rightharpoonup> int) \<times> Engine" where
  "assignTaskStep atTs availableStaff i ls =
     (let load = fst ls; s = snd ls;
          task = tasks s ! i;
          eligibleByScope = filter (staffInScope (t_zoneId task)) availableStaff;
          assignPool = (if length eligibleByScope > 0 then eligibleByScope else availableStaff)
      in case assignPool of
           [] \<Rightarrow> ls
         | m0 # rest \<Rightarrow>
             (let member = foldl (chooseStaff load) m0 rest;
                  s1 = s\<lparr>tasks := (tasks s)[i := task\<lparr>t_assignedStaffId := Some (st_id member),
                            t_assignedAt := Some atTs, t_status := ASSIGNED, t_updatedAt := atTs\<rparr>]\<rparr>;
                  load' = load(st_id member \<mapsto> loadOf load (st_id member) + 1);
                  s2 = s1\<lparr>nowCursor := atTs\<rparr>
              in (load', pushTaskAudit (t_id task) AUDIT_ASSIGNED (Some (st_id member))
                     (if length eligibleByScope > 0 then ''auto_assigned_to='' @ st_name member
                      else ''auto_assigned_fallback_to='' @ st_name member @ '' reason=no_scope_match'')
                     s2)))"

definition autoAssignPendingTasks :: "timestamp \<Rightarrow> Engine \<Rightarrow> Engine" where
  "autoAssignPendingTasks atTs s =
     (let pendingTasks = sort_key (\<lambda>i. toMs (t_createdAt (tasks s ! i)))
            (filter (\<lambda>i. t_status (tasks s ! i) = CREATED \<and> \<not> truthy (t_assignedStaffId (tasks s ! i)))
               [0..<length (tasks s)])
      in if length pendingTasks = 0 then s
         else let availableStaff = getAssignableActiveStaff s in
           if length availableStaff = 0 then s
           else snd (fold (assignTaskStep atTs availableStaff) pendingTasks
                       (staffLoad s availableStaff, s)))"

definition assignOrderStep ::
  "timestamp \<Rightarrow> StaffMember list \<Rightarrow> nat \<Rightarrow> (string \<rightharpoonup> int) \<times> Engine \<Rightarrow> (string \<rightharpoonup> int) \<times> Engine" where
  "assignOrderStep atTs availableStaff i ls =
     (let load = fst ls; s = snd ls;
          ord = receivingOrders s ! i;
          eligibleByScope = filter (staffInScope (o_destinationZoneId ord)) availableStaff;
          assignPool = (if length eligibleByScope > 0 then eligibleByScope else availableStaff)
      in case assignPool of
           [] \<Rightarrow> ls
         | m0 # rest \<Rightarrow>
             (let member = foldl (chooseStaff load) m0 rest;
                  s1 = s\<lparr>receivingOrders := (receivingOrders s)[i := ord\<lparr>o_assignedStaffId := Some (st_id member),
                            o_assignedAt := Some atTs, o_updatedAt := atTs\<rparr>]\<rparr>;
                  load' = load(st_id member \<mapsto> loadOf load (st_id member) + 1)
              in (load', s1\<lparr>nowCursor := atTs\<rparr>)))"

definition autoAssignPendingReceivingOrders :: "timestamp \<Rightarrow> Engine \<Rightarrow> Engine" where
  "autoAssignPendingReceivingOrders atTs s =
     (let pendingOrders = sort_key (\<lambda>i. toMs (o_createdAt (receivingOrders s ! i)))
            (filter (\<lambda>i. o_status (receivingOrders s ! i) = IN_TRANSIT \<and>
                          \<not> truthy (o_assignedStaffId (receivingOrders s ! i)))
               [0..<length (receivingOrders s)])
      in if length pendingOrders = 0 then s
         else let availableStaff = getAssignableActiveStaff s in
           if length availableStaff = 0 then s
           else snd (fold (assignOrderStep atTs availableStaff) pendingOrders
                       (staffLoad s availableStaff, s)))"

section \<open>Replenishment tasks\<close>

text \<open>
  \<^verbatim>\<open>closeReplenishmentTask\<close> looks the task up by id (the first task with that id) and
  does nothing when it is missing or already closed.
\<close>

definition closeReplenishmentTask :: "string \<Rightarrow> string \<Rightarrow> Engine \<Rightarrow> Engine" where
  "closeReplenishmentTask taskId reason s =
     (case findIndex (\<lambda>t. t_id t = taskId) (tasks s) of
        None \<Rightarrow> s
      | Some i \<Rightarrow>
          (let task = tasks s ! i in
           if \<not> taskIsOpen (t_status task) then s
           else
             (let s1 = s\<lparr>tasks := (tasks s)[i := task\<lparr>
                          t_status := (if startsWith reason ''confirmed'' then CONFIRMED else REJECTED),
                          t_closeReason := Some reason, t_closedAt := Some (nowCursor s),
                          t_updatedAt := nowCursor s\<rparr>]\<rparr>;
                  s2 = pushTaskAudit (t_id task) AUDIT_CLOSED (t_confirmedBy task) (''reason='' @ reason) s1;
                  s3 = autoAssignPendingTasks (nowCursor s2) s2
              in autoAssignPendingReceivingOrders (nowCursor s3) s3)))"

definition getReservedTaskQtyFromSource :: "Engine \<Rightarrow> string \<Rightarrow> string \<Rightarrow> string option \<Rightarrow> int" where
  "getReservedTaskQtyFromSource s sourceZoneId skuId excludeTaskId =
     foldl (\<lambda>sum task. sum + max 0 (t_deficitQty task)) 0
       (filter (\<lambda>task. Some (t_id task) \<noteq> excludeTaskId \<and> taskIsOpen (t_status task) \<and>
                        t_skuId task = skuId \<and> t_sourceZoneId task = Some sourceZoneId)
          (tasks s))"

definition availableFromSource :: "Engine \<Rightarrow> string \<Rightarrow> string \<Rightarrow> InventorySource \<Rightarrow> string option \<Rightarrow> int" where
  "availableFromSource s sourceZoneId skuId source excludeTaskId =
     max 0 (getCurrentInventoryQty s sourceZoneId skuId source -
            getReservedTaskQtyFromSource s sourceZoneId skuId excludeTaskId)"

definition buildSourceCandidates :: "Engine \<Rightarrow> ReplenishmentRule \<Rightarrow> string option \<Rightarrow> SourceCandidate list" where
  "buildSourceCandidates s rule excludeTaskId =
     (case find (\<lambda>entry. z_id entry = r_zoneId rule) (zones s) of
        None \<Rightarrow> []
      | Some zone \<Rightarrow>
          map (\<lambda>source. \<lparr>c_sourceZoneId = sr_sourceZoneId source, c_sortOrder = sr_sortOrder source,
                          c_availableQty = availableFromSource s (sr_sourceZoneId source)
                             (r_skuId rule) (r_source rule) excludeTaskId\<rparr>)
            (sort_key sr_sortOrder (z_replenishmentSources zone)))"

text \<open>
  \<^verbatim>\<open>candidates.find((c) => c.availableQty > 0)?.sourceZoneId ?? candidates[0]?.sourceZoneId\<close>
\<close>

definition defaultSource :: "SourceCandidate list \<Rightarrow> string option" where
  "defaultSource candidates =
     (case find (\<lambda>c. c_availableQty c > 0) candidates of
        Some c \<Rightarrow> Some (c_sourceZoneId c)
      | None \<Rightarrow> (case candidates of [] \<Rightarrow> None | c # _ \<Rightarrow> Some (c_sourceZoneId c)))"

definition generateReplenishmentTask ::
  "ReplenishmentRule \<Rightarrow> int \<Rightarrow> int \<Rightarrow> string option \<Rightarrow> SourceCandidate list option \<Rightarrow> Engine \<Rightarrow> Engine" where
  "generateReplenishmentTask rule deficitQty triggerQty sourceZoneId sourceCandidatesInput s =
     (let sourceCandidates = (case sourceCandidatesInput of
                                Some cs \<Rightarrow> cs
                              | None \<Rightarrow> buildSourceCandidates s rule None);
          selectedSource = (case sourceZoneId of
                              Some z \<Rightarrow> Some z
                            | None \<Rightarrow> defaultSource sourceCandidates);
          task = \<lparr>t_id = ''task-'' @ stringOfNat (length (tasks s) + 1),
                  t_ruleId = r_id rule, t_zoneId = r_zoneId rule, t_skuId = r_skuId rule,
                  t_sourceCandidates = sourceCandidates, t_sourceZoneId = selectedSource,
                  t_status = CREATED, t_triggerQty = triggerQty, t_deficitQty = deficitQty,
                  t_targetQty = r_maxQty rule, t_createdAt = nowCursor s, t_updatedAt = nowCursor s,
                  t_assignedStaffId = None, t_assignedAt = None, t_confirmedQty = None,
                  t_confirmedBy = None, t_closeReason = None, t_closedAt = None\<rparr>;
          s1 = s\<lparr>tasks := tasks s @ [task]\<rparr>;
          s2 = pushTaskAudit (t_id task) AUDIT_CREATED None
                 (''zone='' @ t_zoneId task @ '' sku='' @ t_skuId task @ '' deficit='' @
                  stringOfInt (t_deficitQty task)) s1
      in autoAssignPendingTasks (nowCursor s2) s2)"

section \<open>Receiving orders\<close>

record CreateReceivingPayload =
  cr_sourceLocationId :: string
  cr_destinationZoneId :: string
  cr_skuId :: string
  cr_source :: InventorySource
  cr_requestedQty :: int
  cr_note :: "string option"
  cr_createdAt :: timestamp

text \<open>
  \<^verbatim>\<open>createReceivingOrder\<close> returns a status (and the order, which is then the first
  element of \<^verbatim>\<open>receivingOrders\<close>); the model returns the status and the new state.
\<close>

definition createReceivingOrder :: "CreateReceivingPayload \<Rightarrow> Engine \<Rightarrow> string \<times> Engine" where
  "createReceivingOrder payload s =
     (let requestedQty = max 0 (cr_requestedQty payload) in
      if requestedQty \<le> 0 then (''invalid_qty'', s)
      else if find (\<lambda>zone. z_id zone = cr_destinationZoneId payload) (zones s) = None
        then (''destination_not_found'', s)
      else if skuSourceById s (cr_skuId payload) = None then (''sku_not_found'', s)
      else if skuSourceById s (cr_skuId payload) \<noteq> Some (cr_source payload) then (''source_mismatch'', s)
      else
        (let isExternalSource = startsWith (cr_sourceLocationId payload) ''external-'' in
         if \<not> isExternalSource \<and> \<not> list_ex (\<lambda>zone. z_id zone = cr_sourceLocationId payload) (zones s)
           then (''source_not_found'', s)
         else if \<not> isExternalSource \<and> cr_sourceLocationId payload = cr_destinationZoneId payload
           then (''source_equals_destination'', s)
         else
           (let s1 = s\<lparr>nowCursor := cr_createdAt payload\<rparr>;
                ord = \<lparr>o_id = ''recv-'' @ stringOfNat (length (receivingOrders s1) + 1),
                       o_sourceLocationId = cr_sourceLocationId payload,
                       o_destinationZoneId = cr_destinationZoneId payload,
                       o_skuId = cr_skuId payload, o_source = cr_source payload,
                       o_requestedQty = requestedQty, o_confirmedQty = 0, o_status = IN_TRANSIT,
                       o_createdAt = cr_createdAt payload, o_updatedAt = cr_createdAt payload,
                       o_note = cr_note payload, o_assignedStaffId = None, o_assignedAt = None,
                       o_confirmedAt = None, o_confirmedBy = None\<rparr>;
                s2 = s1\<lparr>receivingOrders := ord # receivingOrders s1\<rparr>
            in (''created'', autoAssignPendingReceivingOrders (cr_createdAt payload) s2))))"

definition resolveInboundSourceLocation :: "Engine \<Rightarrow> Zone \<Rightarrow> ReplenishmentRule \<Rightarrow> int \<Rightarrow> string" where
  "resolveInboundSourceLocation s zone rule requiredQty =
     (let ordered = sort_key sr_sortOrder (z_replenishmentSources zone) in
      case ordered of
        [] \<Rightarrow> ''external-esbo''
      | first # _ \<Rightarrow>
          (let internalCandidates =
                 map (\<lambda>source. (sr_sourceZoneId source,
                                 getCurrentInventoryQty s (sr_sourceZoneId source) (r_skuId rule) (r_source rule)))
                   (filter (\<lambda>source. \<not> startsWith (sr_sourceZoneId source) ''external-'') ordered)
           in case find (\<lambda>candidate. snd candidate \<ge> requiredQty) internalCandidates of
                Some enoughInternal \<Rightarrow> fst enoughInternal
              | None \<Rightarrow>
                  (case find (\<lambda>candidate. snd candidate > 0) internalCandidates of
                     Some someInternal \<Rightarrow> fst someInternal
                   | None \<Rightarrow>
                       (case find (\<lambda>source. startsWith (sr_sourceZoneId source) ''external-'') ordered of
                          Some firstExternal \<Rightarrow> sr_sourceZoneId firstExternal
                        | None \<Rightarrow> sr_sourceZoneId first))))"

text \<open>
  The first loop of \<^verbatim>\<open>evaluateInboundReceivingNeed\<close> walks \<^verbatim>\<open>this.tasks\<close> and reads
  each task as it is when the loop reaches it.
\<close>

definition cancelForReceivingStep :: "ReplenishmentRule \<Rightarrow> nat \<Rightarrow> Engine \<Rightarrow> Engine" where
  "cancelForReceivingStep rule i s =
     (let task = tasks s ! i in
      if t_ruleId task \<noteq> r_id rule then s
      else if \<not> taskIsOpen (t_status task) then s
      else if t_status task = IN_PROGRESS then s
      else closeReplenishmentTask (t_id task) ''non_sales_receiving_flow'' s)"

definition evaluateInboundReceivingNeed :: "Zone \<Rightarrow> ReplenishmentRule \<Rightarrow> int \<Rightarrow> Engine \<Rightarrow> Engine" where
  "evaluateInboundReceivingNeed zone rule currentQty s =
     (let s1 = fold (cancelForReceivingStep rule) [0..<length (tasks s)] s in
      if currentQty > r_minQty rule then s1
      else
        (let desiredQty = max 0 (r_maxQty rule - currentQty) in
         if desiredQty \<le> 0 then s1
         else
           (let plannedInTransitQty =
                  foldl (\<lambda>sum ord. sum + max 0 (o_requestedQty ord)) 0
                    (filter (\<lambda>ord. o_status ord = IN_TRANSIT \<and> o_destinationZoneId ord = z_id zone \<and>
                                    o_skuId ord = r_skuId rule \<and> o_source ord = r_source rule)
                       (receivingOrders s1));
                remainingQty = max 0 (desiredQty - plannedInTransitQty)
            in if remainingQty \<le> 0 then s1
               else snd (createReceivingOrder
                      \<lparr>cr_sourceLocationId = resolveInboundSourceLocation s1 zone rule remainingQty,
                        cr_destinationZoneId = z_id zone, cr_skuId = r_skuId rule,
                        cr_source = r_source rule, cr_requestedQty = remainingQty,
                        cr_note = Some ''auto_replenishment_non_sales'',
                        cr_createdAt = nowCursor s1\<rparr> s1))))"


section \<open>Min/max evaluation\<close>

text \<open>
  \<^verbatim>\<open>openTasks\<close>: the open tasks of a rule in creation order, as positions in
  \<^verbatim>\<open>this.tasks\<close>. The code holds references to the task objects, mutates some of them in
  place (\<^verbatim>\<open>keeper.deficitQty = ...\<close>) and closes others through their id; positions keep
  the two apart.
\<close>

definition openTaskIndices :: "Engine \<Rightarrow> string \<Rightarrow> nat list" where
  "openTaskIndices s ruleId =
     sort_key (\<lambda>i. toMs (t_createdAt (tasks s ! i)))
       (filter (\<lambda>i. t_ruleId (tasks s ! i) = ruleId \<and> taskIsOpen (t_status (tasks s ! i)))
          [0..<length (tasks s)])"

definition autoRejectableIndices :: "Engine \<Rightarrow> nat list \<Rightarrow> nat list" where
  "autoRejectableIndices s openTasks = filter (\<lambda>i. t_status (tasks s ! i) \<noteq> IN_PROGRESS) openTasks"

definition closeTaskAt :: "string \<Rightarrow> nat \<Rightarrow> Engine \<Rightarrow> Engine" where
  "closeTaskAt reason i s = closeReplenishmentTask (t_id (tasks s ! i)) reason s"

text \<open>The merge block: one open task per rule when the destination has one source.\<close>

definition mergeOpenPlan :: "Zone \<Rightarrow> ReplenishmentRule \<Rightarrow> Engine \<Rightarrow> Engine" where
  "mergeOpenPlan zone rule s =
     (let openTasks = openTaskIndices s (r_id rule);
          autoRejectableTasks = autoRejectableIndices s openTasks
      in if length autoRejectableTasks > 1 then
           (let distinctTaskSources = newSet (map (\<lambda>i. case t_sourceZoneId (tasks s ! i) of
                                                          None \<Rightarrow> ''__none__'' | Some z \<Rightarrow> z)
                                                 autoRejectableTasks);
                singleSourceDestination = (length (z_replenishmentSources zone) \<le> 1);
                singleTaskSource = (length distinctTaskSources \<le> 1)
            in if singleSourceDestination \<or> singleTaskSource then
                 (let keeper = hd autoRejectableTasks;
                      mergedDeficit = foldl (\<lambda>sum i. sum + max 0 (t_deficitQty (tasks s ! i))) 0
                                        autoRejectableTasks;
                      s1 = s\<lparr>tasks := (tasks s)[keeper := (tasks s ! keeper)\<lparr>
                                t_deficitQty := mergedDeficit, t_updatedAt := nowCursor s\<rparr>]\<rparr>
                  in fold (closeTaskAt ''merged_plan'') (tl autoRejectableTasks) s1)
               else s)
         else s)"

text \<open>
  One round of the trim loop, which walks \<^verbatim>\<open>autoRejectableTasks\<close> from its last element
  while \<^verbatim>\<open>overflow > 0\<close>.
\<close>

definition trimStep :: "nat \<Rightarrow> int \<times> Engine \<Rightarrow> int \<times> Engine" where
  "trimStep i os =
     (let overflow = fst os; s = snd os; task = tasks s ! i in
      if \<not> overflow > 0 then os
      else if t_deficitQty task \<le> overflow then
        (overflow - t_deficitQty task, closeReplenishmentTask (t_id task) ''plan_adjusted'' s)
      else
        (0, s\<lparr>tasks := (tasks s)[i := task\<lparr>t_deficitQty := t_deficitQty task - overflow,
                                             t_updatedAt := nowCursor s\<rparr>]\<rparr>))"

definition refreshStep :: "ReplenishmentRule \<Rightarrow> nat \<Rightarrow> Engine \<Rightarrow> Engine" where
  "refreshStep rule i s =
     (let task = tasks s ! i;
          candidates = buildSourceCandidates s rule (Some (t_id task))
      in s\<lparr>tasks := (tasks s)[i := task\<lparr>
              t_sourceCandidates := candidates,
              t_sourceZoneId := (case t_sourceZoneId task of
                                   Some z \<Rightarrow> Some z
                                 | None \<Rightarrow> defaultSource candidates),
              t_updatedAt := nowCursor s\<rparr>]\<rparr>)"

text \<open>
  One round of the allocation loop over the source candidates; the state of the loop is
  \<^verbatim>\<open>remainingQty\<close>, \<^verbatim>\<open>createdAnyTask\<close> and the engine. After \<^verbatim>\<open>break\<close> no later round
  does anything, since \<^verbatim>\<open>remainingQty\<close> stays put.
\<close>

definition allocStep ::
  "ReplenishmentRule \<Rightarrow> int \<Rightarrow> SourceCandidate list \<Rightarrow> SourceCandidate \<Rightarrow>
   int \<times> bool \<times> Engine \<Rightarrow> int \<times> bool \<times> Engine" where
  "allocStep rule currentQty candidates source st =
     (let remainingQty = fst st; createdAnyTask = fst (snd st); s = snd (snd st) in
      if remainingQty \<le> 0 then st
      else
        (let allocQty = min remainingQty (c_availableQty source) in
         if allocQty \<le> 0 then st
         else (remainingQty - allocQty, True,
               generateReplenishmentTask rule allocQty currentQty (Some (c_sourceZoneId source))
                 (Some candidates) s)))"

definition triggerReplenishment :: "ReplenishmentRule \<Rightarrow> int \<Rightarrow> int \<Rightarrow> Engine \<Rightarrow> Engine" where
  "triggerReplenishment rule currentQty remainingQty s =
     (let candidates = buildSourceCandidates s rule None;
          st = fold (allocStep rule currentQty candidates) candidates (remainingQty, False, s);
          remainingQty' = fst st; createdAnyTask = fst (snd st); s1 = snd (snd st)
      in if \<not> createdAnyTask \<and> remainingQty' > 0 then
           generateReplenishmentTask rule remainingQty' currentQty
             (case candidates of [] \<Rightarrow> None | c # _ \<Rightarrow> Some (c_sourceZoneId c))
             (Some candidates) s1
         else s1)"

text \<open>The body of the loop over the active rules of the zone.\<close>

definition evaluateRule :: "string \<Rightarrow> Zone \<Rightarrow> ReplenishmentRule \<Rightarrow> Engine \<Rightarrow> Engine" where
  "evaluateRule zoneId zone rule s =
     (let currentQty = getCurrentInventoryQty s zoneId (r_skuId rule) (r_source rule) in
      if \<not> z_isSalesLocation zone then evaluateInboundReceivingNeed zone rule currentQty s
      else
        (let s1 = mergeOpenPlan zone rule s;
             openTasks = openTaskIndices s1 (r_id rule);
             autoRejectableTasks = autoRejectableIndices s1 openTasks
         in if currentQty \<ge> r_maxQty rule then
              fold (closeTaskAt ''stock_recovered'') autoRejectableTasks s1
            else
              (let desiredQty = max 0 (r_maxQty rule - currentQty);
                   plannedQty0 = foldl (\<lambda>sum i. sum + t_deficitQty (tasks s1 ! i)) 0 openTasks;
                   s2 = (if plannedQty0 > desiredQty
                         then snd (fold trimStep (rev autoRejectableTasks) (plannedQty0 - desiredQty, s1))
                         else s1);
                   plannedQty = (if plannedQty0 > desiredQty then desiredQty else plannedQty0);
                   s3 = fold (refreshStep rule) openTasks s2
               in if currentQty \<le> r_minQty rule then
                    (let remainingQty = max 0 (desiredQty - plannedQty) in
                     if remainingQty \<le> 0 then s3
                     else triggerReplenishment rule currentQty remainingQty s3)
                  else s3)))"

definition evaluateMinMax :: "string \<Rightarrow> Engine \<Rightarrow> Engine" where
  "evaluateMinMax zoneId s =
     (let rs = filter (\<lambda>r. r_zoneId r = zoneId \<and> r_isActive r) (rules s) in
      case find (\<lambda>entry. z_id entry = zoneId) (zones s) of
        None \<Rightarrow> s
      | Some zone \<Rightarrow> fold (evaluateRule zoneId zone) rs s)"

section \<open>Snapshot recompute\<close>

text \<open>
  \<^verbatim>\<open>calculateZoneInventory\<close>. \<open>present\<close> is the presence records of the zone inside the
  TTL in the map's iteration order; \<^verbatim>\<open>bySku\<close> groups their EPCs in a \<^verbatim>\<open>Set\<close> per SKU.
  The method returns \<^verbatim>\<open>getZoneSnapshots(zoneId)\<close> of the state it leaves.
\<close>

definition presentInZone :: "Engine \<Rightarrow> string \<Rightarrow> EPCPresence list" where
  "presentInZone s zoneId =
     (let nowMs = toMs (nowCursor s); ttlMs = rfidPresenceTtlSec * 1000 in
      filter (\<lambda>p. p_zoneId p = zoneId \<and> \<not> toMs (p_lastSeenAt p) < nowMs - ttlMs)
        (mapValues (epcPresence s)))"

definition bySkuSize :: "EPCPresence list \<Rightarrow> string \<Rightarrow> int" where
  "bySkuSize present skuId = int (length (newSet (map p_epc (filter (\<lambda>p. p_skuId p = skuId) present))))"

definition calculateZoneInventory :: "string \<Rightarrow> Engine \<Rightarrow> Engine" where
  "calculateZoneInventory zoneId s =
     (let present = presentInZone s zoneId;
          rfidSkuCandidates = newSet
            (map p_skuId present @
             map r_skuId (filter (\<lambda>r. r_zoneId r = zoneId \<and> r_source r = RFID \<and> r_isActive r) (rules s)) @
             map s_skuId (filter (\<lambda>x. s_zoneId x = zoneId \<and> s_source x = RFID) (snapshots s)));
          s1 = fold (\<lambda>skuId st.
                  (let qty = bySkuSize present skuId in
                   upsertSnapshot zoneId skuId qty RFID (Some (if qty > 0 then 0.9 else 0.7)) st))
                 rfidSkuCandidates s;
          nonRfidSkusInZone =
             map r_skuId (filter (\<lambda>r. r_zoneId r = zoneId \<and> r_source r = NON_RFID \<and> r_isActive r) (rules s1));
          s2 = fold (\<lambda>skuId st.
                  upsertSnapshot zoneId skuId (calculateNonRFIDInventory st skuId zoneId) NON_RFID None st)
                 (newSet nonRfidSkusInZone) s1
      in evaluateMinMax zoneId s2)"

definition getZoneSnapshots :: "Engine \<Rightarrow> string \<Rightarrow> InventorySnapshotByZone list" where
  "getZoneSnapshots s zoneId = filter (\<lambda>x. s_zoneId x = zoneId) (snapshots s)"


section \<open>Ingestion of RFID reads\<close>

text \<open>
  One round of the loop of \<^verbatim>\<open>applyPendingRFIDPicks\<close>; \<open>k\<close> is the position of the pick
  in \<^verbatim>\<open>pendingRFIDPicks\<close> (an array that is only appended to). The loop state is
  \<^verbatim>\<open>removedEpcs\<close> and the engine.
\<close>

definition applyPickStep :: "nat \<Rightarrow> int \<times> Engine \<Rightarrow> int \<times> Engine" where
  "applyPickStep k rs =
     (let removedEpcs = fst rs; s = snd rs;
          pick = pendingRFIDPicks s ! k;
          epcs = slice0 (getPresentEPCs s (pk_zoneId pick) (pk_skuId pick)) (pk_qtyRemaining pick)
      in if length epcs = 0 then rs
         else
           (let s1 = s\<lparr>epcPresence := fold mapDelete epcs (epcPresence s)\<rparr>;
                remaining = pk_qtyRemaining pick - int (length epcs);
                pick' = pick\<lparr>pk_consumedEpcs := pk_consumedEpcs pick @ epcs,
                             pk_qtyRemaining := (if remaining \<le> 0 then 0 else remaining),
                             pk_status := (if remaining \<le> 0 then PICK_COMPLETED else pk_status pick)\<rparr>;
                s2 = s1\<lparr>pendingRFIDPicks := (pendingRFIDPicks s1)[k := pick']\<rparr>;
                s3 = (case findIndex (\<lambda>item. b_id item = pk_basketItemId pick) (customerBasketItems s2) of
                        None \<Rightarrow> s2
                      | Some j \<Rightarrow>
                          s2\<lparr>customerBasketItems := (customerBasketItems s2)[j :=
                               (customerBasketItems s2 ! j)\<lparr>b_pickedConfirmedQty :=
                                  b_pickedConfirmedQty (customerBasketItems s2 ! j) + int (length epcs)\<rparr>]\<rparr>)
            in (removedEpcs + int (length epcs), s3)))"

definition applyPendingRFIDPicks :: "string \<Rightarrow> Engine \<Rightarrow> int \<times> Engine" where
  "applyPendingRFIDPicks zoneId s =
     (let pending = filter (\<lambda>k. pk_zoneId (pendingRFIDPicks s ! k) = zoneId \<and>
                                 pk_status (pendingRFIDPicks s ! k) = PICK_IN_PROGRESS)
                      [0..<length (pendingRFIDPicks s)]
      in if length pending = 0 then (0, s)
         else (let rs = fold applyPickStep pending (0, s)
               in (fst rs, evaluateMinMax zoneId (snd rs))))"

text \<open>
  \<^verbatim>\<open>ingestRFIDRead\<close> returns \<^verbatim>\<open>{ status, skuId? }\<close>; the model returns the status, the
  SKU and the new state.
\<close>

definition ingestRFIDRead :: "RFIDReadEvent \<Rightarrow> Engine \<Rightarrow> string \<times> string option \<times> Engine" where
  "ingestRFIDRead event s =
     (case find (\<lambda>a. a_id a = e_antennaId event \<and> a_zoneId a = e_zoneId event) (antennas s) of
        None \<Rightarrow> (''invalid_antenna_or_zone'', None, s)
      | Some antenna \<Rightarrow>
          if deduplicateReads s (e_epc event) (e_antennaId event) dedupWindowSec (e_timestamp event)
          then (''duplicate_ignored'', None, s)
          else
            (case lookupSkuByEPC s (e_epc event) (e_timestamp event) of
               None \<Rightarrow> (''unknown_epc'', None, s)
             | Some m \<Rightarrow>
                 (let s1 = s\<lparr>rfidEvents := rfidEvents s @ [event]\<rparr>;
                      s2 = s1\<lparr>nowCursor := e_timestamp event\<rparr>;
                      s3 = s2\<lparr>epcPresence := mapSet (e_epc event)
                              \<lparr>p_epc = e_epc event, p_skuId = m_skuId m, p_zoneId = e_zoneId event,
                                p_antennaId = e_antennaId event, p_lastSeenAt = e_timestamp event,
                                p_lastRssi = e_rssi event\<rparr> (epcPresence s2)\<rparr>;
                      s4 = snd (applyPendingRFIDPicks (e_zoneId event) s3)
                  in (''accepted'', Some (m_skuId m), calculateZoneInventory (e_zoneId event) s4))))"

text \<open>
  The loop of \<^verbatim>\<open>forceZoneSweep\<close> and \<^verbatim>\<open>scanZone\<close> over \<^verbatim>\<open>epcPresence.values()\<close>.
\<close>

definition refreshPresenceInZone :: "string \<Rightarrow> timestamp \<Rightarrow> Engine \<Rightarrow> Engine" where
  "refreshPresenceInZone zoneId ts s =
     s\<lparr>epcPresence := map (\<lambda>kv. if p_zoneId (snd kv) \<noteq> zoneId then kv
                                 else (fst kv, (snd kv)\<lparr>p_lastSeenAt := ts\<rparr>)) (epcPresence s)\<rparr>"

definition forceZoneSweep :: "string \<Rightarrow> timestamp \<Rightarrow> Engine \<Rightarrow> string \<times> int option \<times> Engine" where
  "forceZoneSweep zoneId ts s =
     (case find (\<lambda>entry. z_id entry = zoneId) (zones s) of
        None \<Rightarrow> (''zone_not_found'', None, s)
      | Some zone \<Rightarrow>
          (let s1 = s\<lparr>nowCursor := ts\<rparr>;
               s2 = refreshPresenceInZone zoneId ts s1;
               rs = applyPendingRFIDPicks zoneId s2
           in (''accepted'', Some (fst rs), calculateZoneInventory zoneId (snd rs))))"

definition scanZone :: "string \<Rightarrow> timestamp \<Rightarrow> Engine \<Rightarrow> string \<times> Engine" where
  "scanZone zoneId ts s =
     (case find (\<lambda>entry. z_id entry = zoneId) (zones s) of
        None \<Rightarrow> (''zone_not_found'', s)
      | Some zone \<Rightarrow>
          (let s1 = s\<lparr>nowCursor := ts\<rparr>;
               s2 = refreshPresenceInZone zoneId ts s1
           in (''accepted'', calculateZoneInventory zoneId s2)))"

section \<open>Sales events\<close>

definition skuSource :: "Engine \<Rightarrow> string \<Rightarrow> InventorySource" where
  "skuSource s skuId = (case skuSourceById s skuId of None \<Rightarrow> NON_RFID | Some src \<Rightarrow> src)"

definition deductRFIDImmediate :: "string \<Rightarrow> string \<Rightarrow> int \<Rightarrow> Engine \<Rightarrow> Engine" where
  "deductRFIDImmediate zoneId skuId qty s =
     (let beforeQty = getCurrentInventoryQty s zoneId skuId RFID;
          epcs = slice0 (getPresentEPCs s zoneId skuId) qty;
          s1 = s\<lparr>epcPresence := fold mapDelete epcs (epcPresence s)\<rparr>;
          s2 = calculateZoneInventory zoneId s1;
          targetQty = max 0 (beforeQty - qty);
          recalculatedQty = getCurrentInventoryQty s2 zoneId skuId RFID
      in if recalculatedQty > targetQty then
           evaluateMinMax zoneId (upsertSnapshot zoneId skuId targetQty RFID (Some 0.55) s2)
         else s2)"

definition ingestSalesEvent :: "SalesEvent \<Rightarrow> Engine \<Rightarrow> string \<times> Engine" where
  "ingestSalesEvent event s =
     (let s1 = s\<lparr>salesEvents := salesEvents s @ [event]\<rparr>;
          s2 = s1\<lparr>nowCursor := se_timestamp event\<rparr>;
          source = skuSource s2 (se_skuId event)
      in if source = RFID \<and> se_eventType event = SALE then
           (''accepted_rfid_immediate'',
            deductRFIDImmediate (se_zoneId event) (se_skuId event) (se_qty event) s2)
         else (''accepted'', calculateZoneInventory (se_zoneId event) s2))"

section \<open>Customer cart\<close>







definition getCustomerBasket :: "Engine \<Rightarrow> string \<Rightarrow> CustomerBasketItem list" where
  "getCustomerBasket s customerId =
     filter (\<lambda>item. b_customerId item = customerId \<and> b_status item = IN_CART) (customerBasketItems s)"


section \<open>Transfers between locations\<close>

definition destinationAntennaOf :: "Engine \<Rightarrow> string \<Rightarrow> string" where
  "destinationAntennaOf s destinationZoneId =
     (case find (\<lambda>antenna. a_zoneId antenna = destinationZoneId) (antennas s) of
        Some antenna \<Rightarrow> a_id antenna
      | None \<Rightarrow> ''system-transfer'')"

text \<open>
  \<^verbatim>\<open>const presence = this.epcPresence.get(epc); if (!presence) continue; presence.zoneId = ...\<close>
\<close>

definition rebindPresence :: "string \<Rightarrow> string \<Rightarrow> timestamp \<Rightarrow> string \<Rightarrow> Engine \<Rightarrow> Engine" where
  "rebindPresence destinationZoneId destinationAntenna ts epc s =
     (case mapGet (epcPresence s) epc of
        None \<Rightarrow> s
      | Some presence \<Rightarrow>
          s\<lparr>epcPresence := mapSet epc
               (presence\<lparr>p_zoneId := destinationZoneId, p_antennaId := destinationAntenna,
                          p_lastSeenAt := ts\<rparr>) (epcPresence s)\<rparr>)"

definition createExternalRFIDStep :: "string \<Rightarrow> string \<Rightarrow> string \<Rightarrow> timestamp \<Rightarrow> nat \<Rightarrow> Engine \<Rightarrow> Engine" where
  "createExternalRFIDStep skuId destinationZoneId destinationAntenna atTs i s =
     (let epc = ''EPC-RCV-'' @ padStart (stringOfNat (generatedEpcSeq s)) 6 CHR ''0'';
          s1 = s\<lparr>generatedEpcSeq := generatedEpcSeq s + 1\<rparr>;
          s2 = s1\<lparr>mapping := mapping s1 @
                 [\<lparr>m_id = ''map-rcv-'' @ toLowerCase epc, m_epc = epc, m_skuId = skuId,
                   m_inventorySource = RFID, m_activeFrom = atTs, m_activeTo = None\<rparr>]\<rparr>
      in s2\<lparr>epcPresence := mapSet epc
              \<lparr>p_epc = epc, p_skuId = skuId, p_zoneId = destinationZoneId,
                p_antennaId = destinationAntenna, p_lastSeenAt = atTs, p_lastRssi = None\<rparr>
              (epcPresence s2)\<rparr>)"

text \<open>
  \<^verbatim>\<open>createExternalRFIDForDestination\<close>: the loop \<^verbatim>\<open>for (i = 0; i < qty; i += 1)\<close> runs
  \<open>nat qty\<close> times and the method returns that count.
\<close>

definition createExternalRFIDForDestination ::
  "string \<Rightarrow> string \<Rightarrow> int \<Rightarrow> timestamp \<Rightarrow> Engine \<Rightarrow> int \<times> Engine" where
  "createExternalRFIDForDestination skuId destinationZoneId qty atTs s =
     (let destinationAntenna = destinationAntennaOf s destinationZoneId in
      (int (nat qty),
       fold (createExternalRFIDStep skuId destinationZoneId destinationAntenna atTs) [0..<nat qty] s))"

definition moveRFIDEpcs ::
  "string \<Rightarrow> string \<Rightarrow> string \<Rightarrow> int \<Rightarrow> timestamp \<Rightarrow> Engine \<Rightarrow> string list \<times> Engine" where
  "moveRFIDEpcs sourceZoneId destinationZoneId skuId qty atTs s =
     (let movedEpcs = slice0 (getPresentEPCs s sourceZoneId skuId) qty;
          destinationAntenna = destinationAntennaOf s destinationZoneId
      in (movedEpcs, fold (rebindPresence destinationZoneId destinationAntenna atTs) movedEpcs s))"

definition transferNonRfid :: "string \<Rightarrow> string \<Rightarrow> string \<Rightarrow> int \<Rightarrow> Engine \<Rightarrow> int \<times> Engine" where
  "transferNonRfid sourceZoneId destinationZoneId skuId qty s =
     (let currentSource = getCurrentInventoryQty s sourceZoneId skuId NON_RFID;
          movedQty = min (max 0 qty) currentSource
      in if movedQty \<le> 0 then (0, s)
         else
           (let s1 = upsertSnapshot sourceZoneId skuId (currentSource - movedQty) NON_RFID None s;
                currentDestination = getCurrentInventoryQty s1 destinationZoneId skuId NON_RFID
            in (movedQty,
                upsertSnapshot destinationZoneId skuId (currentDestination + movedQty) NON_RFID None s1)))"


section \<open>Task confirmation\<close>






section \<open>Personalisation flow and checkout\<close>

text \<open>
  One round of the loop of \<^verbatim>\<open>transferConsumedPendingEpcsToZone\<close> over the pending picks
  (position \<open>k\<close>); the loop state is \<^verbatim>\<open>moved\<close> and the engine.
\<close>

definition transferConsumedStep ::
  "string \<Rightarrow> string \<Rightarrow> string \<Rightarrow> string \<Rightarrow> timestamp \<Rightarrow> nat \<Rightarrow> int \<times> Engine \<Rightarrow> int \<times> Engine" where
  "transferConsumedStep basketItemId skuId destinationZoneId destinationAntenna atTs k ms =
     (let moved = fst ms; s = snd ms; pending = pendingRFIDPicks s ! k in
      if pk_basketItemId pending \<noteq> basketItemId then ms
      else
        (let s1 = s\<lparr>epcPresence := fold (\<lambda>epc. mapSet epc
                         \<lparr>p_epc = epc, p_skuId = skuId, p_zoneId = destinationZoneId,
                           p_antennaId = destinationAntenna, p_lastSeenAt = atTs, p_lastRssi = None\<rparr>)
                       (pk_consumedEpcs pending) (epcPresence s)\<rparr>
         in (moved + int (length (pk_consumedEpcs pending)),
             s1\<lparr>pendingRFIDPicks := (pendingRFIDPicks s1)[k := pending\<lparr>pk_consumedEpcs := [],
                    pk_qtyRemaining := 0, pk_status := PICK_COMPLETED\<rparr>]\<rparr>)))"

definition transferConsumedPendingEpcsToZone ::
  "string \<Rightarrow> string \<Rightarrow> string \<Rightarrow> timestamp \<Rightarrow> Engine \<Rightarrow> int \<times> Engine" where
  "transferConsumedPendingEpcsToZone basketItemId skuId destinationZoneId atTs s =
     fold (transferConsumedStep basketItemId skuId destinationZoneId
             (destinationAntennaOf s destinationZoneId) atTs)
       [0..<length (pendingRFIDPicks s)] (0, s)"





text \<open>
  \<^verbatim>\<open>processPersonalizationSale\<close>; \<open>j\<close> is the position of the basket item in
  \<^verbatim>\<open>customerBasketItems\<close>. Its first half moves the units to the cashier staging area:
  for RFID the EPCs the pending picks consumed, then synthesised EPCs for picks that are
  no longer on record, then present EPCs for the outstanding rest; for NON_RFID a transfer
  between the two snapshots. \<open>moveSoldUnitsToCashier\<close> is that half; its first component
  is \<open>False\<close> where the method returns early because a NON_RFID transfer moved nothing.
\<close>

definition moveSoldUnitsToCashier :: "nat \<Rightarrow> InventorySource \<Rightarrow> timestamp \<Rightarrow> Engine \<Rightarrow> bool \<times> Engine" where
  "moveSoldUnitsToCashier j source ts s =
     (let item = customerBasketItems s ! j in
      if source = RFID then
        (let pickedFromReads = max 0 (b_pickedConfirmedQty item);
             r1 = transferConsumedPendingEpcsToZone (b_id item) (b_skuId item)
                    CASHIER_STORAGE_ZONE_ID ts s;
             restoredFromPending = fst r1;
             s1 = (if pickedFromReads > restoredFromPending
                   then snd (createExternalRFIDForDestination (b_skuId item) CASHIER_STORAGE_ZONE_ID
                               (pickedFromReads - restoredFromPending) ts (snd r1))
                   else snd r1);
             outstanding = max 0 (b_qty item - pickedFromReads);
             s2 = (if outstanding > 0
                   then snd (moveRFIDEpcs (b_zoneId item) CASHIER_STORAGE_ZONE_ID (b_skuId item)
                               outstanding ts s1)
                   else s1)
         in (True, s2\<lparr>customerBasketItems := (customerBasketItems s2)[j :=
                         (customerBasketItems s2 ! j)\<lparr>b_pickedConfirmedQty := 0\<rparr>]\<rparr>))
      else
        (let r = transferNonRfid (b_zoneId item) CASHIER_STORAGE_ZONE_ID (b_skuId item) (b_qty item) s
         in (\<not> fst r \<le> 0, snd r)))"





text \<open>
  \<^verbatim>\<open>removeCustomerItem\<close>. One round of its loop over the pending picks re-creates the
  presence of every consumed EPC in the item's zone; the loop state is \<^verbatim>\<open>restoredQty\<close>
  and the engine.
\<close>

definition restorePickStep ::
  "nat \<Rightarrow> string \<Rightarrow> timestamp \<Rightarrow> nat \<Rightarrow> int \<times> Engine \<Rightarrow> int \<times> Engine" where
  "restorePickStep j destinationAntenna ts k rs =
     (let restoredQty = fst rs; s = snd rs;
          item = customerBasketItems s ! j; pending = pendingRFIDPicks s ! k in
      if pk_basketItemId pending \<noteq> b_id item then rs
      else
        (let s1 = s\<lparr>epcPresence := fold (\<lambda>epc. mapSet epc
                         \<lparr>p_epc = epc, p_skuId = b_skuId item, p_zoneId = b_zoneId item,
                           p_antennaId = destinationAntenna, p_lastSeenAt = ts, p_lastRssi = None\<rparr>)
                       (pk_consumedEpcs pending) (epcPresence s)\<rparr>
         in (restoredQty + int (length (pk_consumedEpcs pending)),
             s1\<lparr>pendingRFIDPicks := (pendingRFIDPicks s1)[k := pending\<lparr>pk_consumedEpcs := [],
                    pk_status := PICK_COMPLETED, pk_qtyRemaining := 0\<rparr>]\<rparr>)))"

definition completePickOfItem :: "string \<Rightarrow> nat \<Rightarrow> Engine \<Rightarrow> Engine" where
  "completePickOfItem basketItemId k s =
     (let pending = pendingRFIDPicks s ! k in
      if pk_basketItemId pending = basketItemId
      then s\<lparr>pendingRFIDPicks := (pendingRFIDPicks s)[k := pending\<lparr>pk_status := PICK_COMPLETED,
                                                                    pk_qtyRemaining := 0\<rparr>]\<rparr>
      else s)"

definition removeCustomerItem :: "string \<Rightarrow> timestamp \<Rightarrow> Engine \<Rightarrow> (string \<times> int) \<times> Engine" where
  "removeCustomerItem basketItemId ts s =
     (let s1 = s\<lparr>nowCursor := ts\<rparr> in
      case findIndex (\<lambda>entry. b_id entry = basketItemId) (customerBasketItems s1) of
        None \<Rightarrow> ((''not_found_or_closed'', 0), s1)
      | Some j \<Rightarrow>
          if b_status (customerBasketItems s1 ! j) \<noteq> IN_CART then ((''not_found_or_closed'', 0), s1)
          else
            (let item = customerBasketItems s1 ! j;
                 source = skuSource s1 (b_skuId item);
                 rs = (if source = RFID then
                         (let destinationAntenna = destinationAntennaOf s1 (b_zoneId item);
                              r1 = fold (restorePickStep j destinationAntenna ts)
                                     [0..<length (pendingRFIDPicks s1)] (0, s1);
                              r2 = (if b_pickedConfirmedQty item > fst r1 then
                                      (let c = createExternalRFIDForDestination (b_skuId item)
                                                 (b_zoneId item) (b_pickedConfirmedQty item - fst r1) ts (snd r1)
                                       in (fst r1 + fst c, snd c))
                                    else r1)
                          in (fst r2, (snd r2)\<lparr>customerBasketItems := (customerBasketItems (snd r2))[j :=
                                          (customerBasketItems (snd r2) ! j)\<lparr>b_pickedConfirmedQty := 0\<rparr>]\<rparr>))
                       else
                         (0, fold (completePickOfItem (b_id item)) [0..<length (pendingRFIDPicks s1)] s1));
                 s2 = (snd rs)\<lparr>customerBasketItems := (customerBasketItems (snd rs))[j :=
                          (customerBasketItems (snd rs) ! j)\<lparr>b_status := REMOVED\<rparr>]\<rparr>
             in ((''removed'', fst rs), calculateZoneInventory (b_zoneId item) s2)))"


section \<open>Confirmation of receiving orders\<close>

definition recalculateZonesDependingOnSource :: "string \<Rightarrow> Engine \<Rightarrow> Engine" where
  "recalculateZonesDependingOnSource sourceZoneId s =
     fold (\<lambda>zone st.
             if z_id zone = sourceZoneId then st
             else if \<not> list_ex (\<lambda>source. sr_sourceZoneId source = sourceZoneId) (z_replenishmentSources zone)
               then st
             else calculateZoneInventory (z_id zone) st)
       (zones s) s"

definition refreshCandidatesStep :: "nat \<Rightarrow> Engine \<Rightarrow> Engine" where
  "refreshCandidatesStep i s =
     (let task = tasks s ! i in
      if \<not> taskIsOpen (t_status task) then s
      else case find (\<lambda>entry. r_id entry = t_ruleId task) (rules s) of
             None \<Rightarrow> s
           | Some rule \<Rightarrow>
               if \<not> r_isActive rule then s
               else
                 (let candidates = buildSourceCandidates s rule (Some (t_id task));
                      keep = (truthy (t_sourceZoneId task) \<and>
                              list_ex (\<lambda>entry. Some (c_sourceZoneId entry) = t_sourceZoneId task) candidates)
                  in s\<lparr>tasks := (tasks s)[i := task\<lparr>
                          t_sourceCandidates := candidates,
                          t_sourceZoneId := (if keep then t_sourceZoneId task else defaultSource candidates),
                          t_updatedAt := nowCursor s\<rparr>]\<rparr>))"

definition refreshOpenTaskSourceCandidates :: "Engine \<Rightarrow> Engine" where
  "refreshOpenTaskSourceCandidates s = fold refreshCandidatesStep [0..<length (tasks s)] s"

text \<open>
  \<^verbatim>\<open>confirmReceivingOrder\<close> returns \<^verbatim>\<open>{ status, order?, movedQty? }\<close>; the model
  returns the status, the moved quantity and the new state. \<open>i\<close> is the position of the
  order; the order object is not written to after the first recompute, which may put new
  orders in front of it.
\<close>

definition confirmReceivingOrder ::
  "string \<Rightarrow> ConfirmReceivingPayload \<Rightarrow> Engine \<Rightarrow> (string \<times> int option) \<times> Engine" where
  "confirmReceivingOrder orderId payload s =
     (case findIndex (\<lambda>entry. o_id entry = orderId) (receivingOrders s) of
        None \<Rightarrow> ((''order_not_found'', None), s)
      | Some i \<Rightarrow>
          (let ord = receivingOrders s ! i in
           if o_status ord \<noteq> IN_TRANSIT then ((''order_not_open'', None), s)
           else
             (let s1 = s\<lparr>nowCursor := crp_confirmedAt payload\<rparr>;
                  sourceIsExternal = startsWith (o_sourceLocationId ord) ''external-'';
                  ms =
                    (if o_source ord = RFID then
                       (if sourceIsExternal then
                          (let c = createExternalRFIDForDestination (o_skuId ord) (o_destinationZoneId ord)
                                     (o_requestedQty ord) (crp_confirmedAt payload) s1
                           in if fst c > 0 then
                                (let destinationCurrent =
                                       getCurrentInventoryQty (snd c) (o_destinationZoneId ord) (o_skuId ord) RFID
                                 in (fst c, upsertSnapshot (o_destinationZoneId ord) (o_skuId ord)
                                              (destinationCurrent + fst c) RFID (Some 0.9) (snd c)))
                              else c)
                        else
                          (let m = moveRFIDEpcs (o_sourceLocationId ord) (o_destinationZoneId ord)
                                     (o_skuId ord) (o_requestedQty ord) (crp_confirmedAt payload) s1
                           in (int (length (fst m)), snd m)))
                     else
                       (let ms1 =
                          (if \<not> sourceIsExternal then
                             (let sourceCurrent =
                                    getCurrentInventoryQty s1 (o_sourceLocationId ord) (o_skuId ord) NON_RFID;
                                  movedQty = min (o_requestedQty ord) sourceCurrent
                              in if movedQty > 0 then
                                   (let s' = upsertSnapshot (o_sourceLocationId ord) (o_skuId ord)
                                               (sourceCurrent - movedQty) NON_RFID None s1
                                    in (movedQty,
                                        s'\<lparr>replenishmentConfirmations := replenishmentConfirmations s' @
                                             [\<lparr>cm_zoneId = o_sourceLocationId ord, cm_skuId = o_skuId ord,
                                               cm_qty = - movedQty, cm_timestamp = crp_confirmedAt payload,
                                               cm_taskId = o_id ord\<rparr>]\<rparr>))
                                 else (movedQty, s1))
                           else (o_requestedQty ord, s1));
                            movedQty = fst ms1; s2 = snd ms1
                        in if movedQty > 0 then
                             (let destinationCurrent =
                                    getCurrentInventoryQty s2 (o_destinationZoneId ord) (o_skuId ord) NON_RFID;
                                  s' = upsertSnapshot (o_destinationZoneId ord) (o_skuId ord)
                                         (destinationCurrent + movedQty) NON_RFID None s2
                              in (movedQty,
                                  s'\<lparr>replenishmentConfirmations := replenishmentConfirmations s' @
                                       [\<lparr>cm_zoneId = o_destinationZoneId ord, cm_skuId = o_skuId ord,
                                         cm_qty = movedQty, cm_timestamp = crp_confirmedAt payload,
                                         cm_taskId = o_id ord\<rparr>]\<rparr>))
                           else ms1));
                  movedQty = fst ms; s3 = snd ms
              in if movedQty \<le> 0 then ((''no_inventory_moved'', Some 0), s3)
                 else
                   (let s4 = s3\<lparr>receivingOrders := (receivingOrders s3)[i := (receivingOrders s3 ! i)\<lparr>
                                   o_confirmedQty := movedQty, o_status := ORDER_CONFIRMED,
                                   o_confirmedAt := Some (crp_confirmedAt payload),
                                   o_confirmedBy := Some (crp_confirmedBy payload),
                                   o_updatedAt := crp_confirmedAt payload\<rparr>]\<rparr>;
                        s5 = calculateZoneInventory (o_destinationZoneId ord) s4;
                        s6 = recalculateZonesDependingOnSource (o_destinationZoneId ord) s5;
                        s7 = (if \<not> sourceIsExternal
                              then recalculateZonesDependingOnSource (o_sourceLocationId ord)
                                     (calculateZoneInventory (o_sourceLocationId ord) s6)
                              else s6);
                        s8 = refreshOpenTaskSourceCandidates s7;
                        s9 = autoAssignPendingTasks (crp_confirmedAt payload) s8;
                        s10 = autoAssignPendingReceivingOrders (crp_confirmedAt payload) s9
                    in ((if movedQty < o_requestedQty ord then ''confirmed_partial'' else ''confirmed'',
                         Some movedQty), s10)))))"

section \<open>Locations, staff and rules\<close>

definition isSpaceChar :: "char \<Rightarrow> bool" where
  "isSpaceChar c = (c = CHR '' '' \<or> c = CHR 0x09 \<or> c = CHR 0x0A \<or> c = CHR 0x0B \<or> c = CHR 0x0C \<or> c = CHR 0x0D)"

definition trim :: "string \<Rightarrow> string" where
  "trim str = rev (dropWhile isSpaceChar (rev (dropWhile isSpaceChar str)))"

definition getLocations :: "Engine \<Rightarrow> Zone list" where
  "getLocations s =
     map (\<lambda>zone. zone\<lparr>z_replenishmentSources := sort_key sr_sortOrder (z_replenishmentSources zone)\<rparr>)
       (zones s)"

record UpdateLocationPayload =
  ul_zoneId :: string
  ul_name :: "string option"
  ul_color :: "string option"
  ul_isSalesLocation :: "bool option"
  ul_mapPolygon :: "(real \<times> real) list option"
  ul_replenishmentSources :: "SourceRef list option"

definition validSourceFor :: "Engine \<Rightarrow> string \<Rightarrow> SourceRef \<Rightarrow> bool" where
  "validSourceFor s zoneId source =
     ((startsWith (sr_sourceZoneId source) ''external-'' \<or>
       list_ex (\<lambda>entry. z_id entry = sr_sourceZoneId source) (zones s)) \<and>
      sr_sourceZoneId source \<noteq> zoneId)"

definition rejectForRemovedSource :: "string \<Rightarrow> string list \<Rightarrow> nat \<Rightarrow> Engine \<Rightarrow> Engine" where
  "rejectForRemovedSource zoneId removedSourceIds i s =
     (let task = tasks s ! i in
      if t_zoneId task \<noteq> zoneId then s
      else if \<not> taskIsOpen (t_status task) then s
      else if \<not> truthy (t_sourceZoneId task) \<or> the (t_sourceZoneId task) \<notin> set removedSourceIds then s
      else pushTaskAudit (t_id task) AUDIT_CANCELLED None
             (''source_removed='' @ the (t_sourceZoneId task))
             (s\<lparr>tasks := (tasks s)[i := task\<lparr>t_status := REJECTED,
                    t_closeReason := Some ''source_removed'', t_closedAt := Some (nowCursor s),
                    t_updatedAt := nowCursor s\<rparr>]\<rparr>))"

definition updateLocation :: "UpdateLocationPayload \<Rightarrow> Engine \<Rightarrow> string \<times> Engine" where
  "updateLocation payload s =
     (case findIndex (\<lambda>entry. z_id entry = ul_zoneId payload) (zones s) of
        None \<Rightarrow> (''zone_not_found'', s)
      | Some zi \<Rightarrow>
          (let zone = zones s ! zi;
               previousSourceIds = newSet (map sr_sourceZoneId (z_replenishmentSources zone));
               zone1 = (case ul_name payload of None \<Rightarrow> zone
                        | Some n \<Rightarrow> zone\<lparr>z_name := (if trim n \<noteq> [] then trim n else z_name zone)\<rparr>);
               zone2 = (case ul_color payload of None \<Rightarrow> zone1 | Some c \<Rightarrow> zone1\<lparr>z_color := c\<rparr>);
               zone3 = (case ul_isSalesLocation payload of None \<Rightarrow> zone2
                        | Some b \<Rightarrow> zone2\<lparr>z_isSalesLocation := b\<rparr>);
               zone4 = (case ul_mapPolygon payload of None \<Rightarrow> zone3
                        | Some poly \<Rightarrow> if length poly \<ge> 3 then zone3\<lparr>z_mapPolygon := poly\<rparr> else zone3);
               s1 = (case ul_replenishmentSources payload of
                       None \<Rightarrow> s\<lparr>zones := (zones s)[zi := zone4]\<rparr>
                     | Some sources \<Rightarrow>
                         (let unique = fold (\<lambda>source u. mapSet (sr_sourceZoneId source) (sr_sortOrder source) u)
                                         (filter (validSourceFor s (z_id zone)) sources) [];
                              newSources = sort_key sr_sortOrder
                                 (map (\<lambda>kv. \<lparr>sr_sourceZoneId = fst kv, sr_sortOrder = snd kv\<rparr>) unique);
                              s' = s\<lparr>zones := (zones s)[zi := zone4\<lparr>z_replenishmentSources := newSources\<rparr>]\<rparr>;
                              currentSourceIds = map sr_sourceZoneId newSources;
                              removedSourceIds = filter (\<lambda>sourceId. sourceId \<notin> set currentSourceIds)
                                                   previousSourceIds
                          in if length removedSourceIds > 0
                             then fold (rejectForRemovedSource (z_id zone) removedSourceIds)
                                    [0..<length (tasks s')] s'
                             else s'))
           in (''updated'', calculateZoneInventory (z_id zone) s1)))"

record CreateLocationPayload =
  cl_zoneId :: string
  cl_name :: string
  cl_color :: string
  cl_isSalesLocation :: bool
  cl_mapPolygon :: "(real \<times> real) list"
  cl_replenishmentSources :: "SourceRef list option"

definition createLocation :: "CreateLocationPayload \<Rightarrow> Engine \<Rightarrow> string \<times> Engine" where
  "createLocation payload s =
     (if trim (cl_zoneId payload) = [] then (''invalid_zone_id'', s)
      else if length (cl_mapPolygon payload) < 3 then (''invalid_polygon'', s)
      else if list_ex (\<lambda>zone. z_id zone = cl_zoneId payload) (zones s) then (''zone_exists'', s)
      else
        (let zone = \<lparr>z_id = cl_zoneId payload,
                      z_name = (if trim (cl_name payload) \<noteq> [] then trim (cl_name payload)
                                else cl_zoneId payload),
                      z_color = cl_color payload, z_mapPolygon = cl_mapPolygon payload,
                      z_antennaIds = [], z_ruleIds = [],
                      z_isSalesLocation = cl_isSalesLocation payload,
                      z_replenishmentSources = sort_key sr_sortOrder
                         (filter (\<lambda>source. sr_sourceZoneId source \<noteq> cl_zoneId payload \<and>
                                    (startsWith (sr_sourceZoneId source) ''external-'' \<or>
                                     list_ex (\<lambda>entry. z_id entry = sr_sourceZoneId source) (zones s)))
                            (case cl_replenishmentSources payload of None \<Rightarrow> [] | Some xs \<Rightarrow> xs)),
                      z_isActive = True, z_createdAt = nowCursor s\<rparr>
         in (''created'', s\<lparr>zones := zones s @ [zone]\<rparr>)))"

definition getStaff :: "Engine \<Rightarrow> bool \<Rightarrow> StaffMember list" where
  "getStaff s activeOnly = (if \<not> activeOnly then staff s else filter st_activeShift (staff s))"

definition updateStaffShift :: "string \<Rightarrow> bool \<Rightarrow> Engine \<Rightarrow> string \<times> Engine" where
  "updateStaffShift staffId activeShift s =
     (case findIndex (\<lambda>entry. st_id entry = staffId) (staff s) of
        None \<Rightarrow> (''staff_not_found'', s)
      | Some k \<Rightarrow>
          (let s1 = s\<lparr>staff := (staff s)[k := (staff s ! k)\<lparr>st_activeShift := activeShift\<rparr>]\<rparr>;
               s2 = autoAssignPendingTasks (nowCursor s1) s1
           in (''updated'', autoAssignPendingReceivingOrders (nowCursor s2) s2)))"

definition updateStaffScope :: "string \<Rightarrow> bool \<Rightarrow> string list \<Rightarrow> Engine \<Rightarrow> string \<times> Engine" where
  "updateStaffScope staffId scopeAllZones zoneScopeZoneIds s =
     (case findIndex (\<lambda>entry. st_id entry = staffId) (staff s) of
        None \<Rightarrow> (''staff_not_found'', s)
      | Some k \<Rightarrow>
          (let s1 = s\<lparr>staff := (staff s)[k := (staff s ! k)\<lparr>
                         st_scopeAllZones := scopeAllZones,
                         st_zoneScopeZoneIds :=
                           (if scopeAllZones then []
                            else filter (\<lambda>zoneId. list_ex (\<lambda>zone. z_id zone = zoneId) (zones s))
                                   zoneScopeZoneIds)\<rparr>]\<rparr>;
               s2 = autoAssignPendingTasks (nowCursor s1) s1
           in (''updated'', autoAssignPendingReceivingOrders (nowCursor s2) s2)))"

definition assignTask :: "string \<Rightarrow> string \<Rightarrow> timestamp \<Rightarrow> Engine \<Rightarrow> string \<times> Engine" where
  "assignTask taskId staffId atTs s =
     (case findIndex (\<lambda>entry. t_id entry = taskId) (tasks s) of
        None \<Rightarrow> (''task_not_found'', s)
      | Some i \<Rightarrow>
          (let task = tasks s ! i in
           if \<not> taskIsOpen (t_status task) then (''task_not_open'', s)
           else case find (\<lambda>entry. st_id entry = staffId \<and> st_activeShift entry) (staff s) of
                  None \<Rightarrow> (''staff_not_active'', s)
                | Some member \<Rightarrow>
                    if \<not> st_scopeAllZones member \<and> t_zoneId task \<notin> set (st_zoneScopeZoneIds member)
                    then (''staff_not_eligible_for_zone'', s)
                    else
                      (let s1 = s\<lparr>tasks := (tasks s)[i := task\<lparr>t_assignedStaffId := Some (st_id member),
                                     t_assignedAt := Some atTs, t_status := ASSIGNED, t_updatedAt := atTs\<rparr>]\<rparr>;
                           s2 = s1\<lparr>nowCursor := atTs\<rparr>
                       in (''assigned'', pushTaskAudit (t_id task) AUDIT_ASSIGNED (Some (st_id member))
                                           (''assigned_to='' @ st_name member) s2))))"




definition rejectForDeletedRule :: "string \<Rightarrow> nat \<Rightarrow> Engine \<Rightarrow> Engine" where
  "rejectForDeletedRule ruleId i s =
     (let task = tasks s ! i in
      if t_ruleId task \<noteq> ruleId then s
      else if \<not> taskIsOpen (t_status task) then s
      else pushTaskAudit (t_id task) AUDIT_CANCELLED None ''rule_deleted''
             (s\<lparr>tasks := (tasks s)[i := task\<lparr>t_status := REJECTED,
                    t_closeReason := Some ''rule_deleted'', t_closedAt := Some (nowCursor s),
                    t_updatedAt := nowCursor s\<rparr>]\<rparr>))"

definition deleteRule :: "string \<Rightarrow> Engine \<Rightarrow> string \<times> Engine" where
  "deleteRule ruleId s =
     (case findIndex (\<lambda>entry. r_id entry = ruleId) (rules s) of
        None \<Rightarrow> (''not_found'', s)
      | Some k \<Rightarrow>
          (let rule = rules s ! k in
           if \<not> r_isActive rule then (''already_inactive'', s)
           else
             (let s1 = s\<lparr>rules := (rules s)[k := rule\<lparr>r_isActive := False, r_updatedAt := nowCursor s\<rparr>]\<rparr>;
                  s2 = fold (rejectForDeletedRule (r_id rule)) [0..<length (tasks s1)] s1
              in (''deleted'', calculateZoneInventory (r_zoneId rule) s2))))"

section \<open>Read models and boot\<close>

text \<open>
  \<^verbatim>\<open>getTasks\<close> and \<^verbatim>\<open>getReceivingOrders\<close> run the auto-assigner before they answer, so
  they change the state; the model returns the list read and the state left.
\<close>

definition getTasks :: "TaskStatus option \<Rightarrow> Engine \<Rightarrow> ReplenishmentTask list \<times> Engine" where
  "getTasks status s =
     (let s1 = autoAssignPendingTasks (nowCursor s) s in
      case status of
        None \<Rightarrow> (tasks s1, s1)
      | Some st \<Rightarrow> (filter (\<lambda>t. t_status t = st) (tasks s1), s1))"

definition getReceivingOrders :: "OrderStatus option \<Rightarrow> Engine \<Rightarrow> ReceivingOrder list \<times> Engine" where
  "getReceivingOrders status s =
     (let s1 = autoAssignPendingReceivingOrders (nowCursor s) s in
      case status of
        None \<Rightarrow> (receivingOrders s1, s1)
      | Some st \<Rightarrow> (filter (\<lambda>ord. o_status ord = st) (receivingOrders s1), s1))"

definition getAllSnapshots :: "Engine \<Rightarrow> InventorySnapshotByZone list" where
  "getAllSnapshots s = snapshots s"

definition getTaskAudit :: "Engine \<Rightarrow> string option \<Rightarrow> TaskAuditEntry list" where
  "getTaskAudit s taskId =
     (if \<not> truthy taskId then taskAudit s
      else filter (\<lambda>entry. Some (au_taskId entry) = taskId) (taskAudit s))"

definition getNow :: "Engine \<Rightarrow> timestamp" where
  "getNow s = nowCursor s"

definition seedDemoEvents :: "Engine \<Rightarrow> Engine" where
  "seedDemoEvents s = fold (\<lambda>z st. calculateZoneInventory (z_id z) st) (zones s) s"

definition loadDemoStream :: "RFIDReadEvent list \<Rightarrow> SalesEvent list \<Rightarrow> Engine \<Rightarrow> Engine" where
  "loadDemoStream rfidReads sales s =
     (let s1 = fold (\<lambda>e st. snd (snd (ingestRFIDRead e st))) rfidReads s;
          s2 = fold (\<lambda>e st. snd (ingestSalesEvent e st)) sales s1
      in fold (\<lambda>zone st. calculateZoneInventory (z_id zone) st) (zones s2) s2)"






section \<open>The properties in the words of the specification\<close>



section \<open>A small store\<close>









section \<open>What a step leaves alone\<close>

text \<open>
  The planner (min/max evaluation, task and order bookkeeping, auto-assignment) writes
  only \<^verbatim>\<open>tasks\<close>, \<^verbatim>\<open>taskAudit\<close> and \<^verbatim>\<open>receivingOrders\<close>; a recompute of a zone writes
  \<^verbatim>\<open>snapshots\<close> as well. \<open>planCore\<close> and \<open>invCore\<close> blank these fields, so that two
  states with the same core agree on all the others.
\<close>

definition planCore :: "Engine \<Rightarrow> Engine" where
  "planCore s = s\<lparr>tasks := [], taskAudit := [], receivingOrders := []\<rparr>"

definition invCore :: "Engine \<Rightarrow> Engine" where
  "invCore s = s\<lparr>snapshots := [], tasks := [], taskAudit := [], receivingOrders := []\<rparr>"

section \<open>Confirmation without movable stock\<close>




definition snapCore :: "Engine \<Rightarrow> Engine" where
  "snapCore s = s\<lparr>snapshots := []\<rparr>"




section \<open>Reservation safety\<close>





section \<open>Personalisation at checkout\<close>



text \<open>
  What the planner may not change about a task once it exists: its identity, rule,
  destination, SKU and creation time. Auto-assignment keeps more: the source, the deficit,
  whether the task is open and whether it is in progress.
\<close>

definition taskPlan ::
  "ReplenishmentTask \<Rightarrow> string \<times> string \<times> string \<times> string \<times> timestamp \<times> string option \<times> int \<times> bool \<times> bool" where
  "taskPlan t = (t_id t, t_ruleId t, t_zoneId t, t_skuId t, t_createdAt t, t_sourceZoneId t,
                 t_deficitQty t, taskIsOpen (t_status t), t_status t = IN_PROGRESS)"



section \<open>Ledger conservation for tag-less stock\<close>



section \<open>The dedup window\<close>




section \<open>Frames of the planner and of the recompute\<close>

lemma fold_invariant:
  assumes "Q s" and "\<And>x s. Q s \<Longrightarrow> Q (g x s)"
  shows "Q (fold g xs s)"
  using assms by (induction xs arbitrary: s) auto

lemma planCore_sel [simp]:
  "zones (planCore s) = zones s"
  "antennas (planCore s) = antennas s"
  "mapping (planCore s) = mapping s"
  "rules (planCore s) = rules s"
  "skuSourceById (planCore s) = skuSourceById s"
  "nonRfidBaselines (planCore s) = nonRfidBaselines s"
  "snapshots (planCore s) = snapshots s"
  "rfidEvents (planCore s) = rfidEvents s"
  "salesEvents (planCore s) = salesEvents s"
  "epcPresence (planCore s) = epcPresence s"
  "customers (planCore s) = customers s"
  "customerBasketItems (planCore s) = customerBasketItems s"
  "pendingRFIDPicks (planCore s) = pendingRFIDPicks s"
  "replenishmentConfirmations (planCore s) = replenishmentConfirmations s"
  "staff (planCore s) = staff s"
  "nowCursor (planCore s) = nowCursor s"
  "generatedEpcSeq (planCore s) = generatedEpcSeq s"
  "personalizableSkuIds (planCore s) = personalizableSkuIds s"
  by (simp_all add: planCore_def)

lemma planCore_zones: "planCore s' = planCore s \<Longrightarrow> zones s' = zones s"
  by (metis planCore_sel(1))

lemma planCore_antennas: "planCore s' = planCore s \<Longrightarrow> antennas s' = antennas s"
  by (metis planCore_sel(2))

lemma planCore_mapping: "planCore s' = planCore s \<Longrightarrow> mapping s' = mapping s"
  by (metis planCore_sel(3))

lemma planCore_rules: "planCore s' = planCore s \<Longrightarrow> rules s' = rules s"
  by (metis planCore_sel(4))


lemma planCore_nonRfidBaselines: "planCore s' = planCore s \<Longrightarrow> nonRfidBaselines s' = nonRfidBaselines s"
  by (metis planCore_sel(6))


lemma planCore_rfidEvents: "planCore s' = planCore s \<Longrightarrow> rfidEvents s' = rfidEvents s"
  by (metis planCore_sel(8))

lemma planCore_salesEvents: "planCore s' = planCore s \<Longrightarrow> salesEvents s' = salesEvents s"
  by (metis planCore_sel(9))

lemma planCore_epcPresence: "planCore s' = planCore s \<Longrightarrow> epcPresence s' = epcPresence s"
  by (metis planCore_sel(10))

lemma planCore_customers: "planCore s' = planCore s \<Longrightarrow> customers s' = customers s"
  by (metis planCore_sel(11))


lemma planCore_pendingRFIDPicks: "planCore s' = planCore s \<Longrightarrow> pendingRFIDPicks s' = pendingRFIDPicks s"
  by (metis planCore_sel(13))

lemma planCore_replenishmentConfirmations: "planCore s' = planCore s \<Longrightarrow> replenishmentConfirmations s' = replenishmentConfirmations s"
  by (metis planCore_sel(14))

lemma planCore_staff: "planCore s' = planCore s \<Longrightarrow> staff s' = staff s"
  by (metis planCore_sel(15))

lemma planCore_nowCursor: "planCore s' = planCore s \<Longrightarrow> nowCursor s' = nowCursor s"
  by (metis planCore_sel(16))

lemma planCore_generatedEpcSeq: "planCore s' = planCore s \<Longrightarrow> generatedEpcSeq s' = generatedEpcSeq s"
  by (metis planCore_sel(17))

lemma planCore_personalizableSkuIds: "planCore s' = planCore s \<Longrightarrow> personalizableSkuIds s' = personalizableSkuIds s"
  by (metis planCore_sel(18))

lemma invCore_sel [simp]:
  "zones (invCore s) = zones s"
  "antennas (invCore s) = antennas s"
  "mapping (invCore s) = mapping s"
  "rules (invCore s) = rules s"
  "skuSourceById (invCore s) = skuSourceById s"
  "nonRfidBaselines (invCore s) = nonRfidBaselines s"
  "rfidEvents (invCore s) = rfidEvents s"
  "salesEvents (invCore s) = salesEvents s"
  "epcPresence (invCore s) = epcPresence s"
  "customers (invCore s) = customers s"
  "customerBasketItems (invCore s) = customerBasketItems s"
  "pendingRFIDPicks (invCore s) = pendingRFIDPicks s"
  "replenishmentConfirmations (invCore s) = replenishmentConfirmations s"
  "staff (invCore s) = staff s"
  "nowCursor (invCore s) = nowCursor s"
  "generatedEpcSeq (invCore s) = generatedEpcSeq s"
  "personalizableSkuIds (invCore s) = personalizableSkuIds s"
  by (simp_all add: invCore_def)

lemma invCore_zones: "invCore s' = invCore s \<Longrightarrow> zones s' = zones s"
  by (metis invCore_sel(1))

lemma invCore_antennas: "invCore s' = invCore s \<Longrightarrow> antennas s' = antennas s"
  by (metis invCore_sel(2))

lemma invCore_mapping: "invCore s' = invCore s \<Longrightarrow> mapping s' = mapping s"
  by (metis invCore_sel(3))

lemma invCore_rules: "invCore s' = invCore s \<Longrightarrow> rules s' = rules s"
  by (metis invCore_sel(4))


lemma invCore_nonRfidBaselines: "invCore s' = invCore s \<Longrightarrow> nonRfidBaselines s' = nonRfidBaselines s"
  by (metis invCore_sel(6))

lemma invCore_rfidEvents: "invCore s' = invCore s \<Longrightarrow> rfidEvents s' = rfidEvents s"
  by (metis invCore_sel(7))

lemma invCore_salesEvents: "invCore s' = invCore s \<Longrightarrow> salesEvents s' = salesEvents s"
  by (metis invCore_sel(8))

lemma invCore_epcPresence: "invCore s' = invCore s \<Longrightarrow> epcPresence s' = epcPresence s"
  by (metis invCore_sel(9))

lemma invCore_customers: "invCore s' = invCore s \<Longrightarrow> customers s' = customers s"
  by (metis invCore_sel(10))

lemma invCore_customerBasketItems: "invCore s' = invCore s \<Longrightarrow> customerBasketItems s' = customerBasketItems s"
  by (metis invCore_sel(11))

lemma invCore_pendingRFIDPicks: "invCore s' = invCore s \<Longrightarrow> pendingRFIDPicks s' = pendingRFIDPicks s"
  by (metis invCore_sel(12))

lemma invCore_replenishmentConfirmations: "invCore s' = invCore s \<Longrightarrow> replenishmentConfirmations s' = replenishmentConfirmations s"
  by (metis invCore_sel(13))

lemma invCore_staff: "invCore s' = invCore s \<Longrightarrow> staff s' = staff s"
  by (metis invCore_sel(14))

lemma invCore_nowCursor: "invCore s' = invCore s \<Longrightarrow> nowCursor s' = nowCursor s"
  by (metis invCore_sel(15))

lemma invCore_generatedEpcSeq: "invCore s' = invCore s \<Longrightarrow> generatedEpcSeq s' = generatedEpcSeq s"
  by (metis invCore_sel(16))

lemma invCore_personalizableSkuIds: "invCore s' = invCore s \<Longrightarrow> personalizableSkuIds s' = personalizableSkuIds s"
  by (metis invCore_sel(17))

lemma planCore_imp_invCore: "planCore s' = planCore s \<Longrightarrow> invCore s' = invCore s"
proof -
  assume a: "planCore s' = planCore s"
  have "invCore s' = (planCore s')\<lparr>snapshots := []\<rparr>" by (simp add: planCore_def invCore_def)
  also have "\<dots> = (planCore s)\<lparr>snapshots := []\<rparr>" by (simp only: a)
  also have "\<dots> = invCore s" by (simp add: planCore_def invCore_def)
  finally show ?thesis .
qed

lemma planCore_updates [simp]:
  "planCore (s\<lparr>tasks := ts\<rparr>) = planCore s"
  "planCore (s\<lparr>taskAudit := au\<rparr>) = planCore s"
  "planCore (s\<lparr>receivingOrders := ros\<rparr>) = planCore s"
  by (simp_all add: planCore_def)

lemma invCore_updates [simp]:
  "invCore (s\<lparr>tasks := ts\<rparr>) = invCore s"
  "invCore (s\<lparr>taskAudit := au\<rparr>) = invCore s"
  "invCore (s\<lparr>receivingOrders := ros\<rparr>) = invCore s"
  "invCore (s\<lparr>snapshots := sn\<rparr>) = invCore s"
  by (simp_all add: invCore_def)

lemma planCore_pushTaskAudit [simp]: "planCore (pushTaskAudit t a b d s) = planCore s"
  by (simp add: pushTaskAudit_def)

lemma planCore_cursor_same: "nowCursor s = c \<Longrightarrow> planCore (s\<lparr>nowCursor := c\<rparr>) = planCore s"
  by (auto simp: planCore_def)

lemma planCore_assignTaskStep:
  assumes "planCore (snd st) = planCore s0" "nowCursor s0 = atTs"
  shows "planCore (snd (assignTaskStep atTs av i st)) = planCore s0"
proof -
  have c: "nowCursor (snd st) = atTs" using assms planCore_nowCursor by blast
  show ?thesis
    using assms(1) c
    by (simp add: assignTaskStep_def Let_def planCore_cursor_same split: list.splits)
qed

lemma planCore_autoAssignPendingTasks:
  "nowCursor s = atTs \<Longrightarrow> planCore (autoAssignPendingTasks atTs s) = planCore s"
  unfolding autoAssignPendingTasks_def Let_def
  by (auto intro!: fold_invariant [where Q = "\<lambda>st. planCore (snd st) = planCore s"]
        planCore_assignTaskStep)

lemma planCore_assignOrderStep:
  assumes "planCore (snd st) = planCore s0" "nowCursor s0 = atTs"
  shows "planCore (snd (assignOrderStep atTs av i st)) = planCore s0"
proof -
  have c: "nowCursor (snd st) = atTs" using assms planCore_nowCursor by blast
  show ?thesis
    using assms(1) c
    by (simp add: assignOrderStep_def Let_def planCore_cursor_same split: list.splits)
qed

lemma planCore_autoAssignPendingReceivingOrders:
  "nowCursor s = atTs \<Longrightarrow> planCore (autoAssignPendingReceivingOrders atTs s) = planCore s"
  unfolding autoAssignPendingReceivingOrders_def Let_def
  by (auto intro!: fold_invariant [where Q = "\<lambda>st. planCore (snd st) = planCore s"]
        planCore_assignOrderStep)

lemma planCore_autoAssign_now [simp]:
  "planCore (autoAssignPendingTasks (nowCursor s) s) = planCore s"
  "planCore (autoAssignPendingReceivingOrders (nowCursor s) s) = planCore s"
  by (simp_all add: planCore_autoAssignPendingTasks planCore_autoAssignPendingReceivingOrders)

lemma planCore_closeReplenishmentTask [simp]:
  "planCore (closeReplenishmentTask tid reason s) = planCore s"
  by (simp add: closeReplenishmentTask_def Let_def split: option.splits)

lemma planCore_generateReplenishmentTask [simp]:
  "planCore (generateReplenishmentTask rule d t z cs s) = planCore s"
  by (simp add: generateReplenishmentTask_def Let_def)

lemma planCore_createReceivingOrder:
  "cr_createdAt payload = nowCursor s \<Longrightarrow> planCore (snd (createReceivingOrder payload s)) = planCore s"
  by (simp add: createReceivingOrder_def Let_def planCore_autoAssignPendingReceivingOrders
        planCore_cursor_same)

lemma planCore_fold:
  assumes "\<And>x s. planCore (g x s) = planCore s"
  shows "planCore (fold g xs s) = planCore s"
  by (rule fold_invariant [where Q = "\<lambda>st. planCore st = planCore s"]) (simp_all add: assms)

lemma planCore_cancelForReceivingStep [simp]:
  "planCore (cancelForReceivingStep rule i s) = planCore s"
  by (simp add: cancelForReceivingStep_def Let_def)

lemma planCore_evaluateInboundReceivingNeed [simp]:
  "planCore (evaluateInboundReceivingNeed zone rule q s) = planCore s"
proof -
  let ?s1 = "fold (cancelForReceivingStep rule) [0..<length (tasks s)] s"
  have 1: "planCore ?s1 = planCore s" by (simp add: planCore_fold)
  show ?thesis
    unfolding evaluateInboundReceivingNeed_def Let_def
    by (simp add: 1 planCore_createReceivingOrder)
qed

lemma planCore_closeTaskAt [simp]: "planCore (closeTaskAt reason i s) = planCore s"
  by (simp add: closeTaskAt_def)

lemma planCore_mergeOpenPlan [simp]: "planCore (mergeOpenPlan zone rule s) = planCore s"
  by (simp add: mergeOpenPlan_def Let_def planCore_fold)

lemma planCore_trimStep: "planCore (snd (trimStep i os)) = planCore (snd os)"
  by (simp add: trimStep_def Let_def)

lemma planCore_fold_trimStep [simp]:
  "planCore (snd (fold trimStep js os)) = planCore (snd os)"
  by (rule fold_invariant [where Q = "\<lambda>st. planCore (snd st) = planCore (snd os)"])
     (simp_all add: planCore_trimStep)

lemma planCore_refreshStep [simp]: "planCore (refreshStep rule i s) = planCore s"
  by (simp add: refreshStep_def Let_def)

lemma planCore_allocStep:
  "planCore (snd (snd (allocStep rule q cs c st))) = planCore (snd (snd st))"
  by (simp add: allocStep_def Let_def)

lemma planCore_fold_allocStep [simp]:
  "planCore (snd (snd (fold (allocStep rule q cs) xs st))) = planCore (snd (snd st))"
  by (rule fold_invariant [where Q = "\<lambda>x. planCore (snd (snd x)) = planCore (snd (snd st))"])
     (simp_all add: planCore_allocStep)

lemma planCore_triggerReplenishment [simp]:
  "planCore (triggerReplenishment rule q r s) = planCore s"
  by (simp add: triggerReplenishment_def Let_def)

lemma planCore_evaluateRule [simp]: "planCore (evaluateRule zid zone rule s) = planCore s"
  by (simp add: evaluateRule_def Let_def planCore_fold)

lemma planCore_evaluateMinMax [simp]: "planCore (evaluateMinMax zid s) = planCore s"
  by (simp add: evaluateMinMax_def Let_def planCore_fold split: option.splits)

lemma invCore_evaluateMinMax [simp]: "invCore (evaluateMinMax zid s) = invCore s"
  by (rule planCore_imp_invCore) simp

lemma invCore_upsertSnapshot [simp]: "invCore (upsertSnapshot z k q src c s) = invCore s"
  by (simp add: upsertSnapshot_def Let_def split: option.splits)

lemma invCore_fold:
  assumes "\<And>x s. invCore (g x s) = invCore s"
  shows "invCore (fold g xs s) = invCore s"
  by (rule fold_invariant [where Q = "\<lambda>st. invCore st = invCore s"]) (simp_all add: assms)

lemma invCore_calculateZoneInventory [simp]: "invCore (calculateZoneInventory z s) = invCore s"
  by (simp add: calculateZoneInventory_def Let_def invCore_fold)

section \<open>The cursor and the sales log\<close>



lemma deductRFIDImmediate_frame:
  "nowCursor (deductRFIDImmediate z k q s) = nowCursor s \<and>
   salesEvents (deductRFIDImmediate z k q s) = salesEvents s"
proof -
  let ?s1 = "s\<lparr>epcPresence := fold mapDelete (slice0 (getPresentEPCs s z k) q) (epcPresence s)\<rparr>"
  have "invCore (deductRFIDImmediate z k q s) = invCore ?s1"
    by (simp add: deductRFIDImmediate_def Let_def)
  from invCore_nowCursor [OF this] invCore_salesEvents [OF this] show ?thesis by simp
qed



text \<open>
  Claim C9. \<^verbatim>\<open>ingestSalesEvent\<close> validates nothing: whatever the event (its location,
  its SKU, its quantity), the event is appended to the sales log, the cursor is its time
  stamp, and the status is \<^verbatim>\<open>accepted_rfid_immediate\<close> for a SALE of a SKU registered
  as RFID and \<^verbatim>\<open>accepted\<close> otherwise, an unknown SKU counting as NON_RFID.
\<close>

theorem sales_event_never_rejected:
  "salesEvents (snd (ingestSalesEvent ev s)) = salesEvents s @ [ev] \<and>
   nowCursor (snd (ingestSalesEvent ev s)) = se_timestamp ev \<and>
   fst (ingestSalesEvent ev s) =
     (if skuSourceById s (se_skuId ev) = Some RFID \<and> se_eventType ev = SALE
      then ''accepted_rfid_immediate'' else ''accepted'') \<and>
   (fst (ingestSalesEvent ev s) = ''accepted'' \<or> fst (ingestSalesEvent ev s) = ''accepted_rfid_immediate'')"
proof -
  let ?s2 = "s\<lparr>salesEvents := salesEvents s @ [ev], nowCursor := se_timestamp ev\<rparr>"
  have c: "invCore (calculateZoneInventory (se_zoneId ev) ?s2) = invCore ?s2" by simp
  have src: "(skuSource ?s2 (se_skuId ev) = RFID) = (skuSourceById s (se_skuId ev) = Some RFID)"
    by (auto simp: skuSource_def split: option.splits)
  show ?thesis
    using invCore_nowCursor [OF c] invCore_salesEvents [OF c]
      deductRFIDImmediate_frame [of "se_zoneId ev" "se_skuId ev" "se_qty ev" ?s2]
    by (simp add: ingestSalesEvent_def Let_def src)
qed




section \<open>Task confirmation that moves nothing\<close>


lemma findIndex_None: "findIndex P xs = None \<Longrightarrow> \<forall>x\<in>set xs. \<not> P x"
  by (induction xs) (auto split: if_splits)









lemma snapCore_upsertSnapshot [simp]: "snapCore (upsertSnapshot z k q src c s) = snapCore s"
  by (simp add: upsertSnapshot_def snapCore_def Let_def split: option.splits)










lemma getCurrentInventoryQty_cong:
  "snapshots s' = snapshots s \<Longrightarrow> getCurrentInventoryQty s' z k src = getCurrentInventoryQty s z k src"
  by (simp add: getCurrentInventoryQty_def)




section \<open>Reservation safety of the cart\<close>






section \<open>Personalised items at checkout\<close>

lemma taskPlan_pushTaskAudit [simp]: "tasks (pushTaskAudit t a b d s) = tasks s"
  by (simp add: pushTaskAudit_def)

lemma assignTaskStep_plan:
  assumes "i < length (tasks (snd st))" "t_status (tasks (snd st) ! i) = CREATED"
  shows "map taskPlan (tasks (snd (assignTaskStep atTs av i st))) = map taskPlan (tasks (snd st)) \<and>
         (\<forall>j. j \<noteq> i \<longrightarrow> tasks (snd (assignTaskStep atTs av i st)) ! j = tasks (snd st) ! j)"
proof -
  have "map taskPlan ((tasks (snd st))[i := x]) = map taskPlan (tasks (snd st))"
    if "taskPlan x = taskPlan (tasks (snd st) ! i)" for x
    using that assms(1) by (simp add: map_update list_update_same_conv)
  then show ?thesis using assms
    by (auto simp: assignTaskStep_def Let_def taskPlan_def taskIsOpen_def split: list.splits)
qed

lemma assignTaskStep_fold_plan:
  assumes "distinct js" "\<forall>j\<in>set js. j < length (tasks (snd st)) \<and> t_status (tasks (snd st) ! j) = CREATED"
  shows "map taskPlan (tasks (snd (fold (assignTaskStep atTs av) js st))) = map taskPlan (tasks (snd st))"
  using assms
proof (induction js arbitrary: st)
  case Nil
  then show ?case by simp
next
  case (Cons i js)
  let ?st = "assignTaskStep atTs av i st"
  from Cons.prems have i: "i < length (tasks (snd st))" "t_status (tasks (snd st) ! i) = CREATED" by auto
  note p = assignTaskStep_plan [OF i, of atTs av]
  from p have len: "length (tasks (snd ?st)) = length (tasks (snd st))"
    by (metis length_map)
  have "\<forall>j\<in>set js. j < length (tasks (snd ?st)) \<and> t_status (tasks (snd ?st) ! j) = CREATED"
  proof
    fix j assume j: "j \<in> set js"
    with Cons.prems(1) have "j \<noteq> i" by auto
    with p have "tasks (snd ?st) ! j = tasks (snd st) ! j" by simp
    with Cons.prems(2) j len show "j < length (tasks (snd ?st)) \<and> t_status (tasks (snd ?st) ! j) = CREATED"
      by simp
  qed
  with Cons.IH [of ?st] Cons.prems(1) p show ?case by simp
qed

lemma autoAssignPendingTasks_plan [simp]:
  "map taskPlan (tasks (autoAssignPendingTasks atTs s)) = map taskPlan (tasks s)"
proof -
  define pending where "pending = sort_key (\<lambda>i. toMs (t_createdAt (tasks s ! i)))
            (filter (\<lambda>i. t_status (tasks s ! i) = CREATED \<and> \<not> truthy (t_assignedStaffId (tasks s ! i)))
               [0..<length (tasks s)])"
  have d: "distinct pending" unfolding pending_def by (simp only: distinct_sort distinct_filter distinct_upt)
  have c: "\<forall>j\<in>set pending. j < length (tasks (snd (l, s))) \<and> t_status (tasks (snd (l, s)) ! j) = CREATED" for l :: "string \<rightharpoonup> int"
    unfolding pending_def by (simp only: set_sort set_filter snd_conv) auto
  have f: "map taskPlan (tasks (snd (fold (assignTaskStep atTs av) pending (l, s)))) = map taskPlan (tasks s)" for av l
    using assignTaskStep_fold_plan [OF d c, of atTs av l] by (simp only: snd_conv)
  have e: "autoAssignPendingTasks atTs s =
       (if length pending = 0 then s
         else let availableStaff = getAssignableActiveStaff s in
           if length availableStaff = 0 then s
           else snd (fold (assignTaskStep atTs availableStaff) pending (staffLoad s availableStaff, s)))"
    unfolding autoAssignPendingTasks_def pending_def Let_def ..
  show ?thesis unfolding e Let_def using f by (simp only: split: if_splits) simp
qed

lemma autoAssignPendingReceivingOrders_tasks [simp]:
  "tasks (autoAssignPendingReceivingOrders atTs s) = tasks s"
proof -
  have "tasks (snd (assignOrderStep atTs av i st)) = tasks (snd st)" for av i st
    by (simp add: assignOrderStep_def Let_def split: list.splits)
  then have "tasks (snd (fold (assignOrderStep atTs av) js st)) = tasks (snd st)" for av js st
    by (induction js arbitrary: st) simp_all
  then show ?thesis by (simp add: autoAssignPendingReceivingOrders_def Let_def)
qed







lemma zones_upsertSnapshot [simp]: "zones (upsertSnapshot z k q src c s) = zones s"
  by (rule invCore_zones) simp

lemma zones_fold:
  assumes "\<And>x s. zones (g x s) = zones s"
  shows "zones (fold g xs s) = zones s"
  by (rule fold_invariant [where Q = "\<lambda>st. zones st = zones s"]) (simp_all add: assms)

lemma zones_transferConsumed [simp]:
  "zones (snd (transferConsumedPendingEpcsToZone b k d ts s)) = zones s"
proof -
  have "zones (snd (transferConsumedStep b k d a ts i ms)) = zones (snd ms)" for a i ms
    by (simp add: transferConsumedStep_def Let_def)
  then have "zones (snd (fold (transferConsumedStep b k d a ts) js ms)) = zones (snd ms)" for a js ms
    by (induction js arbitrary: ms) simp_all
  then show ?thesis by (simp add: transferConsumedPendingEpcsToZone_def)
qed

lemma zones_createExternalRFID [simp]:
  "zones (snd (createExternalRFIDForDestination k d q ts s)) = zones s"
  by (simp add: createExternalRFIDForDestination_def Let_def zones_fold createExternalRFIDStep_def)

lemma zones_rebindPresence [simp]: "zones (rebindPresence d a ts e s) = zones s"
  by (simp add: rebindPresence_def split: option.splits)

lemma zones_moveRFIDEpcs [simp]: "zones (snd (moveRFIDEpcs a d k q ts s)) = zones s"
  by (simp add: moveRFIDEpcs_def Let_def zones_fold)

lemma zones_transferNonRfid [simp]: "zones (snd (transferNonRfid a d k q s)) = zones s"
  by (simp add: transferNonRfid_def Let_def)

lemma zones_moveSoldUnitsToCashier [simp]:
  "zones (snd (moveSoldUnitsToCashier j src ts s)) = zones s"
  by (simp add: moveSoldUnitsToCashier_def Let_def)

lemma zones_calculateZoneInventory [simp]: "zones (calculateZoneInventory z s) = zones s"
  by (rule invCore_zones) simp





end
